theory Spec2Isabelle
  imports Main "HOL-Library.Word" "HOL-Library.Sublist"
begin

unbundle bit_operations_syntax

section \<open>Python values and errors\<close>

text \<open>
  The values that flow through \<^verbatim>\<open>playbook_create.py\<close> and \<^verbatim>\<open>playbook_read.py\<close>.
  A Python \<^verbatim>\<open>str\<close> is a \<^typ>\<open>string\<close> whose characters are the code points below 256;
  \<^verbatim>\<open>bytes\<close> is a list of 8-bit words. A \<^verbatim>\<open>dict\<close> is an association list in insertion
  order (the reader builds \<^verbatim>\<open>OrderedDict\<close>s). \<open>PSensitive\<close> is the \<^verbatim>\<open>Sensitive\<close> wrapper
  (its \<^verbatim>\<open>.value\<close> is the argument), \<open>PModel\<close> a pydantic \<^verbatim>\<open>BaseModel\<close> given by its
  fields (all explicitly set), and \<open>PStringVariable\<close>, \<open>PBinaryVariable\<close> are the
  \<^verbatim>\<open>StringVariable\<close> (a \<^verbatim>\<open>str\<close> subclass) and \<^verbatim>\<open>BinaryVariable\<close> (a \<^verbatim>\<open>bytes\<close> subclass)
  handles. Floats are outside the model.
\<close>

type_synonym byte = "8 word"

datatype pyval =
    PNone
  | PBool bool
  | PInt int
  | PStr string
  | PBytes "byte list"
  | PList "pyval list"
  | PTuple "pyval list"
  | PDict "(string \<times> pyval) list"
  | PSensitive string
  | PModel "(string \<times> pyval) list"
  | PStringVariable string
  | PBinaryVariable "byte list"

text \<open>
  Every \<^verbatim>\<open>raise\<close> of the two modules and every exception of a library call they make is
  a value. \<open>WrongType\<close> and \<open>InvalidShape\<close> are the \<^verbatim>\<open>RuntimeError\<close>s raised by
  \<^verbatim>\<open>_check_variable_type\<close> and by the shape validation; \<open>DeserializationFailure\<close> is the
  \<^verbatim>\<open>RuntimeError\<close> of \<^verbatim>\<open>_deserialize_data\<close>; \<open>StoreIOFailure\<close> is the \<^verbatim>\<open>RuntimeError\<close> of a
  store client. \<open>RecursionError\<close> is what the interpreter raises when the call depth is
  used up. \<open>Unmodelled\<close> marks an input whose result is a value
  outside \<^typ>\<open>pyval\<close> (a float, a code point above 255).
\<close>

datatype error =
    WrongType
  | InvalidShape
  | DeserializationFailure
  | PyTypeError
  | PyValueError
  | PyKeyError
  | PyAttributeError
  | UnicodeDecodeError
  | RecursionError
  | StoreIOFailure
  | Unmodelled

section \<open>Collaborators that are not part of the two modules\<close>

text \<open>
  \<^verbatim>\<open>Util\<close> (the variable grammar) is imported from another package. The modules use five
  of its members; they are parameters of the model. \<open>variable_expansion_pattern\<close> stands
  for \<^verbatim>\<open>re.finditer(self.util.variable_expansion_pattern, s)\<close>: the matches in order, each
  with \<^verbatim>\<open>group(0)\<close>, \<^verbatim>\<open>group('origin')\<close> and \<^verbatim>\<open>group('type')\<close>. \<open>variable_playbook_match\<close>
  stands for \<^verbatim>\<open>re.match(self.util.variable_playbook_match, s)\<close> being a match.
\<close>

record variable_model =
  model_key :: string
  model_type :: string

record rematch =
  group0 :: string
  group_origin :: string
  group_type :: "string option"

record util =
  get_playbook_variable_type :: "string \<Rightarrow> string option"
  get_playbook_variable_model :: "string \<Rightarrow> variable_model option"
  is_playbook_variable :: "pyval \<Rightarrow> bool"
  variable_expansion_pattern :: "string \<Rightarrow> rematch list"
  variable_playbook_match :: "string \<Rightarrow> bool"

section \<open>Library functions of Python\<close>

subsection \<open>Type tests\<close>

text \<open>\<^verbatim>\<open>isinstance(v, str)\<close>, \<^verbatim>\<open>isinstance(v, bytes)\<close> and so on; the handles are subclasses.\<close>

fun is_str :: "pyval \<Rightarrow> bool" where
  "is_str (PStr s) = True"
| "is_str (PStringVariable s) = True"
| "is_str v = False"

fun is_bytes :: "pyval \<Rightarrow> bool" where
  "is_bytes (PBytes b) = True"
| "is_bytes (PBinaryVariable b) = True"
| "is_bytes v = False"

fun is_dict :: "pyval \<Rightarrow> bool" where
  "is_dict (PDict d) = True"
| "is_dict v = False"

fun is_list :: "pyval \<Rightarrow> bool" where
  "is_list (PList xs) = True"
| "is_list v = False"

fun is_model :: "pyval \<Rightarrow> bool" where
  "is_model (PModel fs) = True"
| "is_model v = False"

fun is_sensitive :: "pyval \<Rightarrow> bool" where
  "is_sensitive (PSensitive s) = True"
| "is_sensitive v = False"

text \<open>
  \<^verbatim>\<open>isinstance(v, Iterable)\<close>: strings, bytes, lists, tuples and dicts are iterable, and so
  is a pydantic model (it defines \<^verbatim>\<open>__iter__\<close>).
\<close>

fun is_iterable :: "pyval \<Rightarrow> bool" where
  "is_iterable PNone = False"
| "is_iterable (PBool b) = False"
| "is_iterable (PInt i) = False"
| "is_iterable (PSensitive s) = False"
| "is_iterable v = True"

text \<open>The text of a string and the content of a bytes object.\<close>

fun str_text :: "pyval \<Rightarrow> string" where
  "str_text (PStr s) = s"
| "str_text (PStringVariable s) = s"
| "str_text v = []"

fun bytes_content :: "pyval \<Rightarrow> byte list" where
  "bytes_content (PBytes b) = b"
| "bytes_content (PBinaryVariable b) = b"
| "bytes_content v = []"

text \<open>
  What \<^verbatim>\<open>for v in value\<close> runs over: the elements of a list or tuple, the one-character
  strings of a string, the integers of a bytes object, the keys of a dict, the
  (name, value) pairs of a model; anything else raises \<^verbatim>\<open>TypeError\<close>.
\<close>

fun py_iter :: "pyval \<Rightarrow> error + pyval list" where
  "py_iter (PList xs) = Inr xs"
| "py_iter (PTuple xs) = Inr xs"
| "py_iter (PStr s) = Inr (map (\<lambda>c. PStr [c]) s)"
| "py_iter (PStringVariable s) = Inr (map (\<lambda>c. PStr [c]) s)"
| "py_iter (PBytes b) = Inr (map (\<lambda>w. PInt (uint w)) b)"
| "py_iter (PBinaryVariable b) = Inr (map (\<lambda>w. PInt (uint w)) b)"
| "py_iter (PDict d) = Inr (map (\<lambda>kv. PStr (fst kv)) d)"
| "py_iter (PModel fs) = Inr (map (\<lambda>kv. PTuple [PStr (fst kv), snd kv]) fs)"
| "py_iter v = Inl PyTypeError"

subsection \<open>Strings\<close>

text \<open>
  \<^verbatim>\<open>str.strip()\<close> removes leading and trailing whitespace; below 256 the whitespace
  code points are 9 to 13, 28 to 32, 133 and 160.
\<close>

definition is_space :: "char \<Rightarrow> bool" where
  "is_space c =
     (let n = (of_char c :: nat)
      in (9 \<le> n \<and> n \<le> 13) \<or> (28 \<le> n \<and> n \<le> 32) \<or> n = 133 \<or> n = 160)"

definition strip :: "string \<Rightarrow> string" where
  "strip s = rev (dropWhile is_space (rev (dropWhile is_space s)))"

text \<open>
  \<^verbatim>\<open>str.lower()\<close>: below 256 the upper-case letters are A to Z and the code points 192
  to 222 except 215; each is 32 below its lower-case letter.
\<close>

definition lower_char :: "char \<Rightarrow> char" where
  "lower_char c =
     (let n = (of_char c :: nat)
      in if (65 \<le> n \<and> n \<le> 90) \<or> (192 \<le> n \<and> n \<le> 222 \<and> n \<noteq> 215)
         then char_of (n + 32) else c)"

definition lower :: "string \<Rightarrow> string" where
  "lower s = map lower_char s"

text \<open>\<^verbatim>\<open>str(n)\<close> for an integer: its decimal digits, with a minus sign when negative.\<close>

fun str_nat :: "nat \<Rightarrow> string" where
  "str_nat n =
     (if n < 10 then [char_of (48 + n)]
      else str_nat (n div 10) @ [char_of (48 + n mod 10)])"

definition str_int :: "int \<Rightarrow> string" where
  "str_int i = (if i < 0 then CHR ''-'' # str_nat (nat (- i)) else str_nat (nat i))"

text \<open>
  \<^verbatim>\<open>s.replace(old, new)\<close>: every non-overlapping occurrence of \<open>old\<close>, from the left, is
  replaced by \<open>new\<close>. The counter is the number of characters of a matched occurrence
  still to be skipped. For an empty \<open>old\<close>, \<open>new\<close> is put before every character and at
  the end.
\<close>

fun replace_scan :: "string \<Rightarrow> string \<Rightarrow> nat \<Rightarrow> string \<Rightarrow> string" where
  "replace_scan old new k [] = []"
| "replace_scan old new (Suc k) (c # cs) = replace_scan old new k cs"
| "replace_scan old new 0 (c # cs) =
     (if prefix old (c # cs) then new @ replace_scan old new (length old - 1) cs
      else c # replace_scan old new 0 cs)"

definition replace :: "string \<Rightarrow> string \<Rightarrow> string \<Rightarrow> string" where
  "replace s old new =
     (if old = [] then new @ concat (map (\<lambda>c. c # new) s)
      else replace_scan old new 0 s)"

subsection \<open>Codecs\<close>

text \<open>
  \<^verbatim>\<open>bytes.decode('utf-8')\<close>, strict. One-byte sequences and the two-byte sequences led by
  C2 or C3 are the code points below 256. Bytes 80 to C1 and F5 to FF never start a
  sequence. A lead byte C4 to F4 starts, at best, a code point above 255.
\<close>

fun decode_utf8 :: "byte list \<Rightarrow> error + string" where
  "decode_utf8 [] = Inr []"
| "decode_utf8 [b] =
     (if b < 0x80 then Inr [char_of (unat b)]
      else if 0xC4 \<le> b \<and> b \<le> 0xF4 then Inl Unmodelled
      else Inl UnicodeDecodeError)"
| "decode_utf8 (b # c # rest) =
     (if b < 0x80 then
        (case decode_utf8 (c # rest) of Inl e \<Rightarrow> Inl e | Inr s \<Rightarrow> Inr (char_of (unat b) # s))
      else if b = 0xC2 \<or> b = 0xC3 then
        (if 0x80 \<le> c \<and> c \<le> 0xBF then
           (case decode_utf8 rest of
              Inl e \<Rightarrow> Inl e
            | Inr s \<Rightarrow> Inr (char_of (unat (push_bit 6 (b AND 0x1F) OR (c AND 0x3F))) # s))
         else Inl UnicodeDecodeError)
      else if 0xC4 \<le> b \<and> b \<le> 0xF4 then Inl Unmodelled
      else Inl UnicodeDecodeError)"

text \<open>\<^verbatim>\<open>bytes.decode('latin-1')\<close> never fails: byte \<open>n\<close> is code point \<open>n\<close>.\<close>

definition decode_latin1 :: "byte list \<Rightarrow> string" where
  "decode_latin1 b = map (\<lambda>w. char_of (unat w)) b"

text \<open>
  \<^verbatim>\<open>str.encode('ascii')\<close>, which \<^verbatim>\<open>base64.b64decode\<close> applies to a string argument; on a
  character outside ASCII it raises \<^verbatim>\<open>ValueError\<close>.
\<close>

definition encode_ascii :: "string \<Rightarrow> error + byte list" where
  "encode_ascii s =
     (if \<forall>c \<in> set s. (of_char c :: nat) < 128 then Inr (map of_char s) else Inl PyValueError)"

subsection \<open>Base64\<close>

definition table_b2a_base64 :: string where
  "table_b2a_base64 = ''ABCDEFGHIJKLMNOPQRSTUVWXYZabcdefghijklmnopqrstuvwxyz0123456789+/''"

definition BASE64_PAD :: byte where
  "BASE64_PAD = 0x3D"

text \<open>The character of a 6-bit value, and the 6-bit value of a character of the alphabet.\<close>

definition b2a :: "byte \<Rightarrow> byte" where
  "b2a i = of_char (table_b2a_base64 ! unat i)"

definition table_a2b_base64 :: "byte \<Rightarrow> byte option" where
  "table_a2b_base64 c =
     (if 0x41 \<le> c \<and> c \<le> 0x5A then Some (c - 0x41)
      else if 0x61 \<le> c \<and> c \<le> 0x7A then Some (c - 0x61 + 26)
      else if 0x30 \<le> c \<and> c \<le> 0x39 then Some (c - 0x30 + 52)
      else if c = 0x2B then Some 62
      else if c = 0x2F then Some 63
      else None)"

text \<open>
  \<^verbatim>\<open>binascii.b2a_base64(data, newline=False)\<close>: three bytes give four characters; a rest
  of one or two bytes is padded with \<^verbatim>\<open>=\<close>.
\<close>

fun b2a_base64 :: "byte list \<Rightarrow> byte list" where
  "b2a_base64 [] = []"
| "b2a_base64 [a] =
     [b2a (drop_bit 2 a), b2a (push_bit 4 (a AND 3)), BASE64_PAD, BASE64_PAD]"
| "b2a_base64 [a, b] =
     [b2a (drop_bit 2 a), b2a (push_bit 4 (a AND 3) OR drop_bit 4 b),
      b2a (push_bit 2 (b AND 15)), BASE64_PAD]"
| "b2a_base64 (a # b # c # rest) =
     [b2a (drop_bit 2 a), b2a (push_bit 4 (a AND 3) OR drop_bit 4 b),
      b2a (push_bit 2 (b AND 15) OR drop_bit 6 c), b2a (c AND 63)] @ b2a_base64 rest"

text \<open>
  \<^verbatim>\<open>binascii.a2b_base64(data)\<close> outside strict mode, as the interpreter's loop: \<open>quad_pos\<close>
  counts the characters of the current group of four, \<open>leftchar\<close> holds the bits not
  yet written, \<open>pads\<close> counts padding characters. Characters outside the alphabet are
  skipped; padding that completes a group ends the decoding; input that ends inside a
  group raises \<^verbatim>\<open>binascii.Error\<close>, a \<^verbatim>\<open>ValueError\<close>.
\<close>

fun a2b_loop :: "nat \<Rightarrow> byte \<Rightarrow> nat \<Rightarrow> byte list \<Rightarrow> byte list \<Rightarrow> error + byte list" where
  "a2b_loop quad_pos leftchar pads out [] =
     (if quad_pos \<noteq> 0 then Inl PyValueError else Inr out)"
| "a2b_loop quad_pos leftchar pads out (this_ch # rest) =
     (if this_ch = BASE64_PAD then
        (if quad_pos \<ge> 2 then
           (if quad_pos + (pads + 1) \<ge> 4 then Inr out
            else a2b_loop quad_pos leftchar (pads + 1) out rest)
         else a2b_loop quad_pos leftchar pads out rest)
      else
        (case table_a2b_base64 this_ch of
           None \<Rightarrow> a2b_loop quad_pos leftchar pads out rest
         | Some v \<Rightarrow>
             if quad_pos = 0 then a2b_loop 1 v 0 out rest
             else if quad_pos = 1 then
               a2b_loop 2 (v AND 0x0F) 0 (out @ [push_bit 2 leftchar OR drop_bit 4 v]) rest
             else if quad_pos = 2 then
               a2b_loop 3 (v AND 0x03) 0 (out @ [push_bit 4 leftchar OR drop_bit 2 v]) rest
             else a2b_loop 0 0 0 (out @ [push_bit 6 leftchar OR v]) rest))"

definition a2b_base64 :: "byte list \<Rightarrow> error + byte list" where
  "a2b_base64 data = a2b_loop 0 0 0 [] data"

text \<open>
  \<^verbatim>\<open>base64.b64encode(v)\<close> needs a bytes-like object (\<^verbatim>\<open>TypeError\<close> otherwise);
  \<^verbatim>\<open>base64.b64decode(v)\<close> takes bytes or an ASCII string.
\<close>

definition b64encode :: "pyval \<Rightarrow> error + byte list" where
  "b64encode v = (if is_bytes v then Inr (b2a_base64 (bytes_content v)) else Inl PyTypeError)"

definition b64decode :: "pyval \<Rightarrow> error + byte list" where
  "b64decode v =
     (if is_str v then
        (case encode_ascii (str_text v) of Inl e \<Rightarrow> Inl e | Inr b \<Rightarrow> a2b_base64 b)
      else if is_bytes v then a2b_base64 (bytes_content v)
      else Inl PyTypeError)"

subsection \<open>JSON: \<^verbatim>\<open>json.dumps\<close>\<close>

definition backslash :: char where
  "backslash = CHR 0x5C"

definition dquote :: char where
  "dquote = CHR 0x22"

definition hexdigit :: "nat \<Rightarrow> char" where
  "hexdigit n = ''0123456789abcdef'' ! (n mod 16)"

text \<open>
  The escapes of \<^verbatim>\<open>json.dumps\<close> (with \<^verbatim>\<open>ensure_ascii\<close>): the quote, the backslash and the
  five short control escapes; every other character outside the range from space to
  tilde becomes \<^verbatim>\<open>\u00XX\<close>.
\<close>

definition json_escape_char :: "char \<Rightarrow> string" where
  "json_escape_char c =
     (let n = (of_char c :: nat) in
      if c = dquote then [backslash, dquote]
      else if c = backslash then [backslash, backslash]
      else if n = 10 then [backslash, CHR ''n'']
      else if n = 13 then [backslash, CHR ''r'']
      else if n = 9 then [backslash, CHR ''t'']
      else if n = 12 then [backslash, CHR ''f'']
      else if n = 8 then [backslash, CHR ''b'']
      else if 32 \<le> n \<and> n \<le> 126 then [c]
      else [backslash, CHR ''u'', CHR ''0'', CHR ''0'', hexdigit (n div 16), hexdigit n])"

definition json_encode_string :: "string \<Rightarrow> string" where
  "json_encode_string s = dquote # concat (map json_escape_char s) @ [dquote]"

fun join :: "string \<Rightarrow> string list \<Rightarrow> string" where
  "join sep [] = []"
| "join sep [x] = x"
| "join sep (x # y # ys) = x @ sep @ join sep (y # ys)"

text \<open>
  \<^verbatim>\<open>json.dumps(value)\<close> with the default separators. Strings (and string handles), lists,
  tuples, dicts with string keys, integers, booleans and \<^verbatim>\<open>None\<close> are serializable;
  bytes, \<^verbatim>\<open>Sensitive\<close> and model objects raise \<^verbatim>\<open>TypeError\<close>.
\<close>

fun json_dumps :: "pyval \<Rightarrow> error + string"
  and json_dumps_items :: "pyval list \<Rightarrow> error + string list"
  and json_dumps_pairs :: "(string \<times> pyval) list \<Rightarrow> error + string list" where
  "json_dumps PNone = Inr ''null''"
| "json_dumps (PBool b) = Inr (if b then ''true'' else ''false'')"
| "json_dumps (PInt i) = Inr (str_int i)"
| "json_dumps (PStr s) = Inr (json_encode_string s)"
| "json_dumps (PStringVariable s) = Inr (json_encode_string s)"
| "json_dumps (PList xs) =
     (case json_dumps_items xs of
        Inl e \<Rightarrow> Inl e
      | Inr ss \<Rightarrow> Inr (''['' @ join '', '' ss @ '']''))"
| "json_dumps (PTuple xs) =
     (case json_dumps_items xs of
        Inl e \<Rightarrow> Inl e
      | Inr ss \<Rightarrow> Inr (''['' @ join '', '' ss @ '']''))"
| "json_dumps (PDict d) =
     (case json_dumps_pairs d of
        Inl e \<Rightarrow> Inl e
      | Inr ss \<Rightarrow> Inr (''{'' @ join '', '' ss @ ''}''))"
| "json_dumps (PBytes b) = Inl PyTypeError"
| "json_dumps (PBinaryVariable b) = Inl PyTypeError"
| "json_dumps (PSensitive s) = Inl PyTypeError"
| "json_dumps (PModel fs) = Inl PyTypeError"
| "json_dumps_items [] = Inr []"
| "json_dumps_items (x # xs) =
     (case json_dumps x of
        Inl e \<Rightarrow> Inl e
      | Inr s \<Rightarrow> (case json_dumps_items xs of Inl e \<Rightarrow> Inl e | Inr ss \<Rightarrow> Inr (s # ss)))"
| "json_dumps_pairs [] = Inr []"
| "json_dumps_pairs (kv # kvs) =
     (case json_dumps (snd kv) of
        Inl e \<Rightarrow> Inl e
      | Inr s \<Rightarrow>
          (case json_dumps_pairs kvs of
             Inl e \<Rightarrow> Inl e
           | Inr ss \<Rightarrow> Inr ((json_encode_string (fst kv) @ '': '' @ s) # ss)))"

subsection \<open>JSON: \<^verbatim>\<open>json.loads\<close>\<close>

text \<open>
  Every failure of the decoder is a \<^verbatim>\<open>JSONDecodeError\<close>, a \<^verbatim>\<open>ValueError\<close>; here
  \<open>PyValueError\<close>. JSON whitespace is space, tab, newline and carriage return.
\<close>

definition json_ws :: "char \<Rightarrow> bool" where
  "json_ws c = (c = CHR '' '' \<or> (of_char c :: nat) = 9 \<or> (of_char c :: nat) = 10
                \<or> (of_char c :: nat) = 13)"

definition skip_ws :: "string \<Rightarrow> string" where
  "skip_ws s = dropWhile json_ws s"

definition hexval :: "char \<Rightarrow> nat option" where
  "hexval c =
     (let n = (of_char c :: nat) in
      if 48 \<le> n \<and> n \<le> 57 then Some (n - 48)
      else if 97 \<le> n \<and> n \<le> 102 then Some (n - 87)
      else if 65 \<le> n \<and> n \<le> 70 then Some (n - 55)
      else None)"

fun hex4 :: "string \<Rightarrow> nat option" where
  "hex4 [a, b, c, d] =
     (case (hexval a, hexval b, hexval c, hexval d) of
        (Some x, Some y, Some z, Some w) \<Rightarrow> Some (((x * 16 + y) * 16 + z) * 16 + w)
      | _ \<Rightarrow> None)"
| "hex4 s = None"

definition json_unescape :: "char \<Rightarrow> char option" where
  "json_unescape c =
     (if c = dquote then Some dquote
      else if c = backslash then Some backslash
      else if c = CHR ''/'' then Some CHR ''/''
      else if c = CHR ''b'' then Some (char_of (8::nat))
      else if c = CHR ''f'' then Some (char_of (12::nat))
      else if c = CHR ''n'' then Some (char_of (10::nat))
      else if c = CHR ''r'' then Some (char_of (13::nat))
      else if c = CHR ''t'' then Some (char_of (9::nat))
      else None)"

text \<open>
  The string scanner, entered after the opening quote: it returns the decoded text and
  the input after the closing quote. A raw control character is refused (strict mode);
  an escape \<^verbatim>\<open>\uXXXX\<close> at or above 256 denotes a character outside the model.
\<close>

fun scanstring :: "string \<Rightarrow> error + (string \<times> string)" where
  "scanstring [] = Inl PyValueError"
| "scanstring (c # cs) =
     (if c = dquote then Inr ([], cs)
      else if c = backslash then
        (case cs of
           [] \<Rightarrow> Inl PyValueError
         | e # rest \<Rightarrow>
             if e = CHR ''u'' then
               (case hex4 (take 4 rest) of
                  None \<Rightarrow> Inl PyValueError
                | Some n \<Rightarrow>
                    if n < 256 then
                      (case scanstring (drop 4 rest) of
                         Inl err \<Rightarrow> Inl err
                       | Inr (text, after) \<Rightarrow> Inr (char_of n # text, after))
                    else Inl Unmodelled)
             else
               (case json_unescape e of
                  None \<Rightarrow> Inl PyValueError
                | Some ch \<Rightarrow>
                    (case scanstring rest of
                       Inl err \<Rightarrow> Inl err
                     | Inr (text, after) \<Rightarrow> Inr (ch # text, after))))
      else if (of_char c :: nat) < 32 then Inl PyValueError
      else
        (case scanstring cs of
           Inl err \<Rightarrow> Inl err
         | Inr (text, after) \<Rightarrow> Inr (c # text, after)))"

text \<open>
  Numbers: an optional minus sign, then \<^verbatim>\<open>0\<close> or a digit string without leading zero. A
  fraction or an exponent after it makes the number a float, which is outside the
  model. The result is the integer and the input after it.
\<close>

definition is_digit :: "char \<Rightarrow> bool" where
  "is_digit c = (48 \<le> (of_char c :: nat) \<and> (of_char c :: nat) \<le> 57)"

definition digits_value :: "string \<Rightarrow> nat" where
  "digits_value ds = foldl (\<lambda>acc d. acc * 10 + ((of_char d :: nat) - 48)) 0 ds"

definition starts_float_tail :: "string \<Rightarrow> bool" where
  "starts_float_tail s =
     (case s of
        [] \<Rightarrow> False
      | c # cs \<Rightarrow>
          if c = CHR ''.'' then (case cs of [] \<Rightarrow> False | d # _ \<Rightarrow> is_digit d)
          else if c = CHR ''e'' \<or> c = CHR ''E'' then
            (case cs of
               [] \<Rightarrow> False
             | d # ds \<Rightarrow>
                 if d = CHR ''+'' \<or> d = CHR ''-'' then (case ds of [] \<Rightarrow> False | x # _ \<Rightarrow> is_digit x)
                 else is_digit d)
          else False)"

definition scan_unsigned :: "string \<Rightarrow> (nat \<times> string) option" where
  "scan_unsigned s =
     (case s of
        [] \<Rightarrow> None
      | c # cs \<Rightarrow>
          if c = CHR ''0'' then Some (0, cs)
          else if is_digit c then Some (digits_value (takeWhile is_digit s), dropWhile is_digit s)
          else None)"

definition scan_number :: "string \<Rightarrow> error + (pyval \<times> string)" where
  "scan_number s =
     (case s of
        [] \<Rightarrow> Inl PyValueError
      | c # cs \<Rightarrow>
          (case scan_unsigned (if c = CHR ''-'' then cs else s) of
             None \<Rightarrow> Inl PyValueError
           | Some (n, rest) \<Rightarrow>
               if starts_float_tail rest then Inl Unmodelled
               else Inr (PInt (if c = CHR ''-'' then - int n else int n), rest)))"

text \<open>
  \<^verbatim>\<open>OrderedDict(pairs)\<close>: a key that occurs again keeps its first position and takes the
  later value.
\<close>

fun dict_set :: "(string \<times> pyval) list \<Rightarrow> string \<Rightarrow> pyval \<Rightarrow> (string \<times> pyval) list" where
  "dict_set [] k v = [(k, v)]"
| "dict_set (kv # kvs) k v = (if fst kv = k then (k, v) # kvs else kv # dict_set kvs k v)"

text \<open>
  The scanner. \<open>scan_once\<close> reads one value at the head of the input; \<open>scan_array\<close> is
  entered before an element, \<open>scan_object\<close> before the quote of a key. The first
  argument bounds the number of nested calls.
\<close>

fun scan_once :: "nat \<Rightarrow> string \<Rightarrow> error + (pyval \<times> string)"
  and scan_array :: "nat \<Rightarrow> pyval list \<Rightarrow> string \<Rightarrow> error + (pyval \<times> string)"
  and scan_object :: "nat \<Rightarrow> (string \<times> pyval) list \<Rightarrow> string \<Rightarrow> error + (pyval \<times> string)" where
  "scan_once 0 s = Inl RecursionError"
| "scan_once (Suc n) s =
     (case s of
        [] \<Rightarrow> Inl PyValueError
      | c # cs \<Rightarrow>
          if c = dquote then
            (case scanstring cs of
               Inl err \<Rightarrow> Inl err
             | Inr (text, after) \<Rightarrow> Inr (PStr text, after))
          else if c = CHR ''{'' then
            (case skip_ws cs of
               [] \<Rightarrow> Inl PyValueError
             | d # ds \<Rightarrow> if d = CHR ''}'' then Inr (PDict [], ds) else scan_object n [] (d # ds))
          else if c = CHR ''['' then
            (case skip_ws cs of
               [] \<Rightarrow> Inl PyValueError
             | d # ds \<Rightarrow> if d = CHR '']'' then Inr (PList [], ds) else scan_array n [] (d # ds))
          else if prefix ''null'' s then Inr (PNone, drop 4 s)
          else if prefix ''true'' s then Inr (PBool True, drop 4 s)
          else if prefix ''false'' s then Inr (PBool False, drop 5 s)
          else if prefix ''NaN'' s \<or> prefix ''Infinity'' s \<or> prefix ''-Infinity'' s
            then Inl Unmodelled
          else scan_number s)"
| "scan_array 0 acc s = Inl RecursionError"
| "scan_array (Suc n) acc s =
     (case scan_once n s of
        Inl err \<Rightarrow> Inl err
      | Inr (v, after) \<Rightarrow>
          (case skip_ws after of
             [] \<Rightarrow> Inl PyValueError
           | d # ds \<Rightarrow>
               if d = CHR '']'' then Inr (PList (acc @ [v]), ds)
               else if d = CHR '','' then scan_array n (acc @ [v]) (skip_ws ds)
               else Inl PyValueError))"
| "scan_object 0 acc s = Inl RecursionError"
| "scan_object (Suc n) acc s =
     (case s of
        [] \<Rightarrow> Inl PyValueError
      | q # cs \<Rightarrow>
          if q \<noteq> dquote then Inl PyValueError
          else
            (case scanstring cs of
               Inl err \<Rightarrow> Inl err
             | Inr (k, after_key) \<Rightarrow>
                 (case skip_ws after_key of
                    [] \<Rightarrow> Inl PyValueError
                  | colon # after_colon \<Rightarrow>
                      if colon \<noteq> CHR '':'' then Inl PyValueError
                      else
                        (case scan_once n (skip_ws after_colon) of
                           Inl err \<Rightarrow> Inl err
                         | Inr (v, after) \<Rightarrow>
                             (case skip_ws after of
                                [] \<Rightarrow> Inl PyValueError
                              | d # ds \<Rightarrow>
                                  if d = CHR ''}'' then Inr (PDict (dict_set acc k v), ds)
                                  else if d = CHR '','' then
                                    scan_object n (dict_set acc k v) (skip_ws ds)
                                  else Inl PyValueError)))))"

text \<open>
  \<^verbatim>\<open>json.loads(s)\<close> for a string: leading whitespace, one value, trailing whitespace and
  nothing else. The bound on nested calls is twice the length of the input, which the
  scanner cannot use up, as each pair of calls consumes a character.
\<close>

definition json_loads_str :: "string \<Rightarrow> error + pyval" where
  "json_loads_str s =
     (case scan_once (2 * length s + 2) (skip_ws s) of
        Inl err \<Rightarrow> Inl err
      | Inr (v, after) \<Rightarrow> if skip_ws after = [] then Inr v else Inl PyValueError)"

text \<open>
  \<^verbatim>\<open>json.loads\<close> accepts \<^verbatim>\<open>str\<close>, and \<^verbatim>\<open>bytes\<close> that it decodes first: as UTF-8 unless the
  first bytes are a byte order mark or contain a null byte (then UTF-16 or UTF-32,
  outside the model). Any other argument raises \<^verbatim>\<open>TypeError\<close>.
\<close>

definition json_bytes_utf8 :: "byte list \<Rightarrow> bool" where
  "json_bytes_utf8 b =
     (\<forall>w \<in> set (take 4 b). w \<noteq> 0 \<and> w \<noteq> 0xEF \<and> w \<noteq> 0xFE \<and> w \<noteq> 0xFF)"

definition json_loads :: "pyval \<Rightarrow> error + pyval" where
  "json_loads v =
     (if is_str v then json_loads_str (str_text v)
      else if is_bytes v then
        (if json_bytes_utf8 (bytes_content v) then
           (case decode_utf8 (bytes_content v) of
              Inl err \<Rightarrow> Inl err
            | Inr s \<Rightarrow> json_loads_str s)
         else Inl Unmodelled)
      else Inl PyTypeError)"

section \<open>The key-value store\<close>

text \<open>
  Modelled from the spec: the store client behind \<^verbatim>\<open>self.key_value_store\<close>, which is not
  part of the two modules. Its contract (section 6 of the specification) is
  \<^verbatim>\<open>create(context, key, value) -> handle\<close>, raising on failure, and
  \<^verbatim>\<open>read(context, key) -> bytes|string|none\<close>. The model is a table from (context, key) to
  the value written, a flag for a client that raises \<^verbatim>\<open>RuntimeError\<close> on every call, a
  flag for the client being a \<^verbatim>\<open>KeyValueRedis\<close> (the test of \<^verbatim>\<open>_check_null\<close>), and the
  list of calls received, oldest first. The handle is the integer 1. \<^verbatim>\<open>hset\<close> is the raw
  write that \<^verbatim>\<open>_check_null\<close> issues on \<^verbatim>\<open>redis_client\<close>.
\<close>

datatype store_call =
    Create string string pyval
  | Read string string
  | Hset string string pyval

record key_value_store =
  kv_redis :: bool
  kv_down :: bool
  kv_entries :: "((string \<times> string) \<times> pyval) list"
  kv_calls :: "store_call list"

fun table_set :: "('k \<times> 'v) list \<Rightarrow> 'k \<Rightarrow> 'v \<Rightarrow> ('k \<times> 'v) list" where
  "table_set [] k v = [(k, v)]"
| "table_set (kv # kvs) k v = (if fst kv = k then (k, v) # kvs else kv # table_set kvs k v)"

definition client_create ::
  "key_value_store \<Rightarrow> string \<Rightarrow> string \<Rightarrow> pyval \<Rightarrow> (error + pyval) \<times> key_value_store" where
  "client_create store ctx k v =
     (let logged = store\<lparr>kv_calls := kv_calls store @ [Create ctx k v]\<rparr>
      in if kv_down store then (Inl StoreIOFailure, logged)
         else (Inr (PInt 1), logged\<lparr>kv_entries := table_set (kv_entries store) (ctx, k) v\<rparr>))"

definition client_read ::
  "key_value_store \<Rightarrow> string \<Rightarrow> string \<Rightarrow> (error + pyval) \<times> key_value_store" where
  "client_read store ctx k =
     (let logged = store\<lparr>kv_calls := kv_calls store @ [Read ctx k]\<rparr>
      in if kv_down store then (Inl StoreIOFailure, logged)
         else (case map_of (kv_entries store) (ctx, k) of
                 None \<Rightarrow> (Inr PNone, logged)
               | Some v \<Rightarrow> (Inr v, logged)))"

definition redis_hset :: "key_value_store \<Rightarrow> string \<Rightarrow> string \<Rightarrow> pyval \<Rightarrow> key_value_store" where
  "redis_hset store ctx k v =
     store\<lparr>kv_calls := kv_calls store @ [Hset ctx k v],
           kv_entries := table_set (kv_entries store) (ctx, k) v\<rparr>"

section \<open>PlaybookCreate: key resolution\<close>

text \<open>A key or a value that may be \<^verbatim>\<open>None\<close> is an option; as a Python value:\<close>

fun of_key :: "string option \<Rightarrow> pyval" where
  "of_key None = PNone"
| "of_key (Some k) = PStr k"

text \<open>
  The \<^verbatim>\<open>for output_variable in self.output_variables\<close> loop of \<^verbatim>\<open>_get_variable\<close>: the
  first entry whose model exists, whose key is \<open>key\<close> and whose type is the hint (when
  there is one) is returned; running off the end returns \<^verbatim>\<open>None\<close>.
\<close>

fun lookup_output_variable ::
  "util \<Rightarrow> string option \<Rightarrow> string option \<Rightarrow> string list \<Rightarrow> string option" where
  "lookup_output_variable u key variable_type [] = None"
| "lookup_output_variable u key variable_type (output_variable # rest) =
     (case get_playbook_variable_model u output_variable of
        None \<Rightarrow> lookup_output_variable u key variable_type rest
      | Some vm \<Rightarrow>
          if Some (model_key vm) = key
             \<and> (variable_type = None \<or> Some (model_type vm) = variable_type)
          then Some output_variable
          else lookup_output_variable u key variable_type rest)"

definition get_variable ::
  "util \<Rightarrow> string list \<Rightarrow> string option \<Rightarrow> string option \<Rightarrow> string option" where
  "get_variable u output_variables key variable_type =
     (if \<not> is_playbook_variable u (of_key key)
      then lookup_output_variable u key variable_type output_variables
      else key)"

text \<open>
  The resolution as the specification words it: a key that is a variable is returned
  unchanged; a bare key is looked up in the requested set, in order, for the first
  entry whose bare key matches (and whose type is the hint, when one is given).
\<close>

definition bare_key_matches :: "util \<Rightarrow> string \<Rightarrow> string option \<Rightarrow> string \<Rightarrow> bool" where
  "bare_key_matches u key type_hint entry =
     (case get_playbook_variable_model u entry of
        None \<Rightarrow> False
      | Some vm \<Rightarrow>
          model_key vm = key
          \<and> (case type_hint of None \<Rightarrow> True | Some t \<Rightarrow> model_type vm = t))"

definition resolve :: "util \<Rightarrow> string \<Rightarrow> string list \<Rightarrow> string option \<Rightarrow> string option" where
  "resolve u key requested type_hint =
     (if is_playbook_variable u (PStr key) then Some key
      else find (bare_key_matches u key type_hint) requested)"

section \<open>PlaybookCreate\<close>

text \<open>
  The attributes of a \<^verbatim>\<open>PlaybookCreate\<close> object, and the one piece of process state its
  methods read: \<open>pc_write_null\<close> is \<^verbatim>\<open>os.getenv('TC_PLAYBOOK_WRITE_NULL') is not None\<close>.
  The store is passed to every method and returned by it. A method returns
  \<open>Inr PNone\<close> for \<^verbatim>\<open>None\<close>, \<open>Inr h\<close> for a handle and \<open>Inl e\<close> when it raises. Methods
  that both classes have are prefixed \<open>create_\<close> here and \<open>read_\<close> for \<^verbatim>\<open>PlaybookRead\<close>.
\<close>

record playbook_create =
  pc_context :: string
  pc_output_variables :: "string list"
  pc_util :: util
  pc_write_null :: bool

text \<open>\<^verbatim>\<open>f'{variable}'\<close> for a variable that may be \<^verbatim>\<open>None\<close>.\<close>

fun format_variable :: "string option \<Rightarrow> string" where
  "format_variable None = ''None''"
| "format_variable (Some v) = v"

definition check_iterable :: "pyval \<Rightarrow> bool \<Rightarrow> error + unit" where
  "check_iterable v validate =
     (if validate \<and> (is_dict v \<or> is_str v \<or> \<not> is_iterable v) then Inl InvalidShape
      else Inr ())"

definition check_null ::
  "playbook_create \<Rightarrow> key_value_store \<Rightarrow> string option \<Rightarrow> pyval \<Rightarrow> bool \<times> key_value_store" where
  "check_null self store key v =
     (if v = PNone then
        (True,
         if pc_write_null self \<and> kv_redis store then
           redis_hset store (pc_context self)
             (format_variable (get_variable (pc_util self) (pc_output_variables self) key None)
                @ ''_NULL_VALIDATION'')
             (PStr [])
         else store)
      else (key = None, store))"

definition is_requested :: "playbook_create \<Rightarrow> string \<Rightarrow> bool" where
  "is_requested self variable = (variable \<in> set (pc_output_variables self))"

definition check_requested :: "playbook_create \<Rightarrow> string \<Rightarrow> bool \<Rightarrow> bool" where
  "check_requested self variable when_requested =
     (if when_requested \<and> \<not> is_requested self variable then False else True)"

text \<open>
  \<^verbatim>\<open>_check_variable_type\<close> (the same in both classes) compares the lower-cased type of the
  variable with the lower-cased expected type. A type of \<^verbatim>\<open>None\<close> has no \<^verbatim>\<open>lower\<close>.
\<close>

definition check_variable_type :: "util \<Rightarrow> string \<Rightarrow> string \<Rightarrow> error + unit" where
  "check_variable_type u variable type' =
     (case get_playbook_variable_type u variable of
        None \<Rightarrow> Inl PyAttributeError
      | Some t \<Rightarrow> if lower t \<noteq> lower type' then Inl WrongType else Inr ())"

text \<open>
  \<^verbatim>\<open>_coerce_string_value\<close> (the same in both classes): \<^verbatim>\<open>str(value).lower()\<close> for a boolean,
  \<^verbatim>\<open>str(value)\<close> for an integer.
\<close>

fun coerce_string_value :: "pyval \<Rightarrow> pyval" where
  "coerce_string_value (PBool b) = PStr (if b then ''true'' else ''false'')"
| "coerce_string_value (PInt i) = PStr (str_int i)"
| "coerce_string_value v = v"

text \<open>
  \<^verbatim>\<open>_create_data\<close>: the key is stripped; a \<^verbatim>\<open>RuntimeError\<close> of the client is logged and
  \<^verbatim>\<open>None\<close> is returned.
\<close>

definition create_data ::
  "playbook_create \<Rightarrow> key_value_store \<Rightarrow> string \<Rightarrow> pyval \<Rightarrow> (error + pyval) \<times> key_value_store" where
  "create_data self store key v =
     (case client_create store (pc_context self) (strip key) v of
        (Inl err, store') \<Rightarrow> (Inr PNone, store')
      | (Inr handle, store') \<Rightarrow> (Inr handle, store'))"

text \<open>
  \<^verbatim>\<open>_serialize_data\<close>: \<^verbatim>\<open>json.dumps\<close>; a \<^verbatim>\<open>TypeError\<close> is not caught by its handler for
  \<^verbatim>\<open>ValueError\<close>.
\<close>

definition serialize_data :: "pyval \<Rightarrow> error + string" where
  "serialize_data v = json_dumps v"

definition process_object_types :: "pyval \<Rightarrow> bool \<Rightarrow> bool \<Rightarrow> error + pyval" where
  "process_object_types v validate allow_none =
     (if validate \<and> \<not> (is_model v \<or> is_dict v \<or> (allow_none \<and> v = PNone))
      then Inl InvalidShape
      else Inr (case v of PModel fs \<Rightarrow> PDict fs | _ \<Rightarrow> v))"

fun has_key :: "pyval \<Rightarrow> string \<Rightarrow> bool" where
  "has_key (PDict d) k = (k \<in> fst ` set d)"
| "has_key v k = False"

definition is_key_value :: "pyval \<Rightarrow> bool" where
  "is_key_value data = (is_dict data \<and> has_key data ''key'' \<and> has_key data ''value'')"

text \<open>\<^verbatim>\<open>isinstance(data.get(k, []), list)\<close>.\<close>

fun field_is_list :: "pyval \<Rightarrow> string \<Rightarrow> bool" where
  "field_is_list (PDict d) k = (case map_of d k of None \<Rightarrow> True | Some v \<Rightarrow> is_list v)"
| "field_is_list v k = False"

definition is_tc_batch :: "pyval \<Rightarrow> bool" where
  "is_tc_batch data =
     (if \<not> is_dict data then False
      else if \<not> field_is_list data ''indicator'' then False
      else field_is_list data ''group'')"

definition is_tc_entity :: "pyval \<Rightarrow> bool" where
  "is_tc_entity data =
     (is_dict data \<and> has_key data ''id'' \<and> has_key data ''value'' \<and> has_key data ''type'')"

text \<open>
  The last statement of most methods,
  \<^verbatim>\<open>return self._create_data(variable, self._serialize_data(value))\<close>.
\<close>

definition serialize_and_create ::
  "playbook_create \<Rightarrow> key_value_store \<Rightarrow> string \<Rightarrow> pyval \<Rightarrow> (error + pyval) \<times> key_value_store" where
  "serialize_and_create self store variable v =
     (case serialize_data v of
        Inl err \<Rightarrow> (Inl err, store)
      | Inr text \<Rightarrow> create_data self store variable (PStr text))"

subsection \<open>The typed write methods\<close>

text \<open>
  The loops of the array methods. Each runs over the elements in order and stops at
  the first one that raises.
\<close>

fun binary_array_items :: "bool \<Rightarrow> pyval list \<Rightarrow> error + pyval list" where
  "binary_array_items validate [] = Inr []"
| "binary_array_items validate (v # vs) =
     (if v \<noteq> PNone then
        (if validate \<and> \<not> is_bytes v then Inl InvalidShape
         else
           (case b64encode v of
              Inl err \<Rightarrow> Inl err
            | Inr b \<Rightarrow>
                (case decode_utf8 b of
                   Inl err \<Rightarrow> Inl err
                 | Inr text \<Rightarrow>
                     (case binary_array_items validate vs of
                        Inl err \<Rightarrow> Inl err
                      | Inr rest \<Rightarrow> Inr (PStr text # rest)))))
      else
        (case binary_array_items validate vs of
           Inl err \<Rightarrow> Inl err
         | Inr rest \<Rightarrow> Inr (v # rest)))"

fun key_value_array_items :: "bool \<Rightarrow> pyval list \<Rightarrow> error + pyval list" where
  "key_value_array_items validate [] = Inr []"
| "key_value_array_items validate (v # vs) =
     (case process_object_types v validate True of
        Inl err \<Rightarrow> Inl err
      | Inr v' \<Rightarrow>
          if validate \<and> \<not> is_key_value v' then Inl InvalidShape
          else
            (case key_value_array_items validate vs of
               Inl err \<Rightarrow> Inl err
             | Inr rest \<Rightarrow> Inr (v' # rest)))"

fun string_array_items :: "bool \<Rightarrow> pyval list \<Rightarrow> error + pyval list" where
  "string_array_items validate [] = Inr []"
| "string_array_items validate (v # vs) =
     (let v' = coerce_string_value v in
      if validate \<and> \<not> (v' = PNone \<or> is_str v') then Inl InvalidShape
      else
        (case string_array_items validate vs of
           Inl err \<Rightarrow> Inl err
         | Inr rest \<Rightarrow> Inr (v' # rest)))"

fun tc_entity_array_items :: "bool \<Rightarrow> pyval list \<Rightarrow> error + pyval list" where
  "tc_entity_array_items validate [] = Inr []"
| "tc_entity_array_items validate (v # vs) =
     (case process_object_types v validate True of
        Inl err \<Rightarrow> Inl err
      | Inr v' \<Rightarrow>
          if validate \<and> \<not> is_tc_entity v' then Inl InvalidShape
          else
            (case tc_entity_array_items validate vs of
               Inl err \<Rightarrow> Inl err
             | Inr rest \<Rightarrow> Inr (v' # rest)))"

text \<open>
  The body of an array method after its checks: iterate over the value, transform the
  elements, serialize the list and write it.
\<close>

definition write_items ::
  "playbook_create \<Rightarrow> key_value_store \<Rightarrow> string \<Rightarrow> (pyval list \<Rightarrow> error + pyval list) \<Rightarrow> pyval
     \<Rightarrow> (error + pyval) \<times> key_value_store" where
  "write_items self store variable items v =
     (case py_iter v of
        Inl err \<Rightarrow> (Inl err, store)
      | Inr vs \<Rightarrow>
          (case items vs of
             Inl err \<Rightarrow> (Inl err, store)
           | Inr vs' \<Rightarrow> serialize_and_create self store variable (PList vs')))"

definition create_binary ::
  "playbook_create \<Rightarrow> key_value_store \<Rightarrow> string option \<Rightarrow> pyval \<Rightarrow> bool \<Rightarrow> bool
     \<Rightarrow> (error + pyval) \<times> key_value_store" where
  "create_binary self store key v validate when_requested =
     (case check_null self store key v of
        (True, store') \<Rightarrow> (Inr PNone, store')
      | (False, store') \<Rightarrow>
          (case get_variable (pc_util self) (pc_output_variables self) key (Some ''Binary'') of
             None \<Rightarrow> (Inr PNone, store')
           | Some variable \<Rightarrow>
               if \<not> check_requested self variable when_requested then (Inr PNone, store')
               else
                 (case check_variable_type (pc_util self) variable ''Binary'' of
                    Inl err \<Rightarrow> (Inl err, store')
                  | Inr _ \<Rightarrow>
                      if validate \<and> \<not> is_bytes v then (Inl InvalidShape, store')
                      else
                        (case b64encode v of
                           Inl err \<Rightarrow> (Inl err, store')
                         | Inr b \<Rightarrow>
                             (case decode_utf8 b of
                                Inl err \<Rightarrow> (Inl err, store')
                              | Inr text \<Rightarrow> serialize_and_create self store' variable (PStr text))))))"

definition create_binary_array ::
  "playbook_create \<Rightarrow> key_value_store \<Rightarrow> string option \<Rightarrow> pyval \<Rightarrow> bool \<Rightarrow> bool
     \<Rightarrow> (error + pyval) \<times> key_value_store" where
  "create_binary_array self store key v validate when_requested =
     (case check_null self store key v of
        (True, store') \<Rightarrow> (Inr PNone, store')
      | (False, store') \<Rightarrow>
          (case check_iterable v validate of
             Inl err \<Rightarrow> (Inl err, store')
           | Inr _ \<Rightarrow>
          (case get_variable (pc_util self) (pc_output_variables self) key (Some ''BinaryArray'') of
             None \<Rightarrow> (Inr PNone, store')
           | Some variable \<Rightarrow>
               if \<not> check_requested self variable when_requested then (Inr PNone, store')
               else
                 (case check_variable_type (pc_util self) variable ''BinaryArray'' of
                    Inl err \<Rightarrow> (Inl err, store')
                  | Inr _ \<Rightarrow>
                      write_items self store' variable (binary_array_items validate) v))))"

definition create_key_value ::
  "playbook_create \<Rightarrow> key_value_store \<Rightarrow> string option \<Rightarrow> pyval \<Rightarrow> bool \<Rightarrow> bool
     \<Rightarrow> (error + pyval) \<times> key_value_store" where
  "create_key_value self store key v validate when_requested =
     (case check_null self store key v of
        (True, store') \<Rightarrow> (Inr PNone, store')
      | (False, store') \<Rightarrow>
          (case get_variable (pc_util self) (pc_output_variables self) key (Some ''KeyValue'') of
             None \<Rightarrow> (Inr PNone, store')
           | Some variable \<Rightarrow>
               if \<not> check_requested self variable when_requested then (Inr PNone, store')
               else
                 (case check_variable_type (pc_util self) variable ''KeyValue'' of
                    Inl err \<Rightarrow> (Inl err, store')
                  | Inr _ \<Rightarrow>
                      (case process_object_types v validate False of
                         Inl err \<Rightarrow> (Inl err, store')
                       | Inr v' \<Rightarrow>
                           if validate \<and> \<not> is_key_value v' then (Inl InvalidShape, store')
                           else serialize_and_create self store' variable v'))))"

definition create_key_value_array ::
  "playbook_create \<Rightarrow> key_value_store \<Rightarrow> string option \<Rightarrow> pyval \<Rightarrow> bool \<Rightarrow> bool
     \<Rightarrow> (error + pyval) \<times> key_value_store" where
  "create_key_value_array self store key v validate when_requested =
     (case check_null self store key v of
        (True, store') \<Rightarrow> (Inr PNone, store')
      | (False, store') \<Rightarrow>
          (case check_iterable v validate of
             Inl err \<Rightarrow> (Inl err, store')
           | Inr _ \<Rightarrow>
          (case get_variable (pc_util self) (pc_output_variables self) key (Some ''KeyValueArray'') of
             None \<Rightarrow> (Inr PNone, store')
           | Some variable \<Rightarrow>
               if \<not> check_requested self variable when_requested then (Inr PNone, store')
               else
                 (case check_variable_type (pc_util self) variable ''KeyValueArray'' of
                    Inl err \<Rightarrow> (Inl err, store')
                  | Inr _ \<Rightarrow>
                      write_items self store' variable (key_value_array_items validate) v))))"

definition create_string ::
  "playbook_create \<Rightarrow> key_value_store \<Rightarrow> string option \<Rightarrow> pyval \<Rightarrow> bool \<Rightarrow> bool
     \<Rightarrow> (error + pyval) \<times> key_value_store" where
  "create_string self store key v validate when_requested =
     (case check_null self store key v of
        (True, store') \<Rightarrow> (Inr PNone, store')
      | (False, store') \<Rightarrow>
          (case get_variable (pc_util self) (pc_output_variables self) key (Some ''String'') of
             None \<Rightarrow> (Inr PNone, store')
           | Some variable \<Rightarrow>
               if \<not> check_requested self variable when_requested then (Inr PNone, store')
               else
                 (case check_variable_type (pc_util self) variable ''String'' of
                    Inl err \<Rightarrow> (Inl err, store')
                  | Inr _ \<Rightarrow>
                      (let v' = coerce_string_value v in
                       if validate \<and> \<not> is_str v' then (Inl InvalidShape, store')
                       else serialize_and_create self store' variable v'))))"

definition create_string_array ::
  "playbook_create \<Rightarrow> key_value_store \<Rightarrow> string option \<Rightarrow> pyval \<Rightarrow> bool \<Rightarrow> bool
     \<Rightarrow> (error + pyval) \<times> key_value_store" where
  "create_string_array self store key v validate when_requested =
     (case check_null self store key v of
        (True, store') \<Rightarrow> (Inr PNone, store')
      | (False, store') \<Rightarrow>
          (case check_iterable v validate of
             Inl err \<Rightarrow> (Inl err, store')
           | Inr _ \<Rightarrow>
          (case get_variable (pc_util self) (pc_output_variables self) key (Some ''StringArray'') of
             None \<Rightarrow> (Inr PNone, store')
           | Some variable \<Rightarrow>
               if \<not> check_requested self variable when_requested then (Inr PNone, store')
               else
                 (case check_variable_type (pc_util self) variable ''StringArray'' of
                    Inl err \<Rightarrow> (Inl err, store')
                  | Inr _ \<Rightarrow>
                      write_items self store' variable (string_array_items validate) v))))"

definition create_tc_batch ::
  "playbook_create \<Rightarrow> key_value_store \<Rightarrow> string option \<Rightarrow> pyval \<Rightarrow> bool \<Rightarrow> bool
     \<Rightarrow> (error + pyval) \<times> key_value_store" where
  "create_tc_batch self store key v validate when_requested =
     (case check_null self store key v of
        (True, store') \<Rightarrow> (Inr PNone, store')
      | (False, store') \<Rightarrow>
          (case get_variable (pc_util self) (pc_output_variables self) key (Some ''TCBatch'') of
             None \<Rightarrow> (Inr PNone, store')
           | Some variable \<Rightarrow>
               if \<not> check_requested self variable when_requested then (Inr PNone, store')
               else
                 (case check_variable_type (pc_util self) variable ''TCBatch'' of
                    Inl err \<Rightarrow> (Inl err, store')
                  | Inr _ \<Rightarrow>
                      (case process_object_types v validate False of
                         Inl err \<Rightarrow> (Inl err, store')
                       | Inr v' \<Rightarrow>
                           if validate \<and> \<not> is_tc_batch v' then (Inl InvalidShape, store')
                           else serialize_and_create self store' variable v'))))"

definition create_tc_entity ::
  "playbook_create \<Rightarrow> key_value_store \<Rightarrow> string option \<Rightarrow> pyval \<Rightarrow> bool \<Rightarrow> bool
     \<Rightarrow> (error + pyval) \<times> key_value_store" where
  "create_tc_entity self store key v validate when_requested =
     (case check_null self store key v of
        (True, store') \<Rightarrow> (Inr PNone, store')
      | (False, store') \<Rightarrow>
          (case get_variable (pc_util self) (pc_output_variables self) key (Some ''TCEntity'') of
             None \<Rightarrow> (Inr PNone, store')
           | Some variable \<Rightarrow>
               if \<not> check_requested self variable when_requested then (Inr PNone, store')
               else
                 (case check_variable_type (pc_util self) variable ''TCEntity'' of
                    Inl err \<Rightarrow> (Inl err, store')
                  | Inr _ \<Rightarrow>
                      (case process_object_types v validate False of
                         Inl err \<Rightarrow> (Inl err, store')
                       | Inr v' \<Rightarrow>
                           if validate \<and> \<not> is_tc_entity v' then (Inl InvalidShape, store')
                           else serialize_and_create self store' variable v'))))"

definition create_tc_entity_array ::
  "playbook_create \<Rightarrow> key_value_store \<Rightarrow> string option \<Rightarrow> pyval \<Rightarrow> bool \<Rightarrow> bool
     \<Rightarrow> (error + pyval) \<times> key_value_store" where
  "create_tc_entity_array self store key v validate when_requested =
     (case check_null self store key v of
        (True, store') \<Rightarrow> (Inr PNone, store')
      | (False, store') \<Rightarrow>
          (case check_iterable v validate of
             Inl err \<Rightarrow> (Inl err, store')
           | Inr _ \<Rightarrow>
          (case get_variable (pc_util self) (pc_output_variables self) key (Some ''TCEntityArray'') of
             None \<Rightarrow> (Inr PNone, store')
           | Some variable \<Rightarrow>
               if \<not> check_requested self variable when_requested then (Inr PNone, store')
               else
                 (case check_variable_type (pc_util self) variable ''TCEntityArray'' of
                    Inl err \<Rightarrow> (Inl err, store')
                  | Inr _ \<Rightarrow>
                      write_items self store' variable (tc_entity_array_items validate) v))))"

text \<open>
  \<^verbatim>\<open>raw\<close> ignores its last two parameters. \<^verbatim>\<open>_create_data\<close> calls \<^verbatim>\<open>key.strip()\<close>, which a
  key of \<^verbatim>\<open>None\<close> does not have; \<^verbatim>\<open>_check_null\<close> has returned before.
\<close>

definition create_raw ::
  "playbook_create \<Rightarrow> key_value_store \<Rightarrow> string option \<Rightarrow> pyval \<Rightarrow> bool \<Rightarrow> bool
     \<Rightarrow> (error + pyval) \<times> key_value_store" where
  "create_raw self store key v validate when_requested =
     (case check_null self store key v of
        (True, store') \<Rightarrow> (Inr PNone, store')
      | (False, store') \<Rightarrow>
          (case key of
             None \<Rightarrow> (Inl PyAttributeError, store')
           | Some k \<Rightarrow> create_data self store' k v))"

subsection \<open>The dispatchers\<close>

text \<open>
  The nine wire types, their names, and \<^verbatim>\<open>variable_type_map\<close>: the method of a
  lower-cased type name.
\<close>

datatype wire_type =
    Binary | BinaryArray | KeyValue | KeyValueArray | String | StringArray
  | TCBatch | TCEntity | TCEntityArray

fun type_name :: "wire_type \<Rightarrow> string" where
  "type_name Binary = ''Binary''"
| "type_name BinaryArray = ''BinaryArray''"
| "type_name KeyValue = ''KeyValue''"
| "type_name KeyValueArray = ''KeyValueArray''"
| "type_name String = ''String''"
| "type_name StringArray = ''StringArray''"
| "type_name TCBatch = ''TCBatch''"
| "type_name TCEntity = ''TCEntity''"
| "type_name TCEntityArray = ''TCEntityArray''"

definition variable_type_map :: "string \<Rightarrow> wire_type option" where
  "variable_type_map t =
     (if t = ''binary'' then Some Binary
      else if t = ''binaryarray'' then Some BinaryArray
      else if t = ''keyvalue'' then Some KeyValue
      else if t = ''keyvaluearray'' then Some KeyValueArray
      else if t = ''string'' then Some String
      else if t = ''stringarray'' then Some StringArray
      else if t = ''tcentity'' then Some TCEntity
      else if t = ''tcentityarray'' then Some TCEntityArray
      else if t = ''tcbatch'' then Some TCBatch
      else None)"

fun create_typed ::
  "wire_type \<Rightarrow> playbook_create \<Rightarrow> key_value_store \<Rightarrow> string option \<Rightarrow> pyval \<Rightarrow> bool \<Rightarrow> bool
     \<Rightarrow> (error + pyval) \<times> key_value_store" where
  "create_typed Binary = create_binary"
| "create_typed BinaryArray = create_binary_array"
| "create_typed KeyValue = create_key_value"
| "create_typed KeyValueArray = create_key_value_array"
| "create_typed String = create_string"
| "create_typed StringArray = create_string_array"
| "create_typed TCBatch = create_tc_batch"
| "create_typed TCEntity = create_tc_entity"
| "create_typed TCEntityArray = create_tc_entity_array"

definition create_any ::
  "playbook_create \<Rightarrow> key_value_store \<Rightarrow> string option \<Rightarrow> pyval \<Rightarrow> bool \<Rightarrow> string option \<Rightarrow> bool
     \<Rightarrow> (error + pyval) \<times> key_value_store" where
  "create_any self store key v validate variable_type when_requested =
     (case check_null self store key v of
        (True, store') \<Rightarrow> (Inr PNone, store')
      | (False, store') \<Rightarrow>
          (case get_variable (pc_util self) (pc_output_variables self) key variable_type of
             None \<Rightarrow> (Inr PNone, store')
           | Some variable \<Rightarrow>
               if \<not> check_requested self variable when_requested then (Inr PNone, store')
               else
                 (case get_playbook_variable_type (pc_util self) variable of
                    None \<Rightarrow> (Inl PyAttributeError, store')
                  | Some t \<Rightarrow>
                      (case variable_type_map (lower t) of
                         Some w \<Rightarrow>
                           create_typed w self store' (Some variable) v validate when_requested
                       | None \<Rightarrow>
                           create_raw self store' (Some variable) v validate when_requested))))"

definition create_variable ::
  "playbook_create \<Rightarrow> key_value_store \<Rightarrow> string option \<Rightarrow> pyval \<Rightarrow> string option
     \<Rightarrow> (error + pyval) \<times> key_value_store" where
  "create_variable self store key v variable_type =
     (case check_null self store key v of
        (True, store') \<Rightarrow> (Inr PNone, store')
      | (False, store') \<Rightarrow>
          if pc_output_variables self = [] then (Inr PNone, store')
          else
            (case get_variable (pc_util self) (pc_output_variables self) key variable_type of
               None \<Rightarrow> (Inr PNone, store')
             | Some variable \<Rightarrow>
                 if variable \<notin> set (pc_output_variables self) then (Inr PNone, store')
                 else create_any self store' (Some variable) v True None True))"

section \<open>PlaybookRead\<close>

text \<open>
  The attributes of a \<^verbatim>\<open>PlaybookRead\<close> object and the two things its methods reach
  outside the modules: \<open>pr_resolve_variable\<close> is \<^verbatim>\<open>registry.inputs.resolve_variable\<close>, the
  resolver of \<^verbatim>\<open>&\<close> variables, and \<open>pr_repr\<close> is \<^verbatim>\<open>str(v)\<close> for the values whose text the
  model does not compute (containers, bytes, \<^verbatim>\<open>Sensitive\<close> and model objects).
\<close>

record playbook_read =
  pr_context :: string
  pr_util :: util
  pr_resolve_variable :: "string \<Rightarrow> error + pyval"
  pr_repr :: "pyval \<Rightarrow> string"

fun py_str :: "playbook_read \<Rightarrow> pyval \<Rightarrow> string" where
  "py_str self PNone = ''None''"
| "py_str self (PBool b) = (if b then ''True'' else ''False'')"
| "py_str self (PInt i) = str_int i"
| "py_str self (PStr s) = s"
| "py_str self (PStringVariable s) = s"
| "py_str self v = pr_repr self v"

text \<open>
  The constructors of the handles, inherited from \<^verbatim>\<open>str\<close> and \<^verbatim>\<open>bytes\<close>:
  \<^verbatim>\<open>StringVariable(v)\<close> is \<^verbatim>\<open>str(v)\<close>; \<^verbatim>\<open>BinaryVariable(v)\<close> is \<^verbatim>\<open>bytes(v)\<close>, which copies bytes,
  turns an integer \<open>n\<close> into \<open>n\<close> zero bytes and an iterable of integers below 256 into
  those bytes, and raises otherwise.
\<close>

definition StringVariable :: "playbook_read \<Rightarrow> pyval \<Rightarrow> pyval" where
  "StringVariable self v = PStringVariable (py_str self v)"

fun bytes_of_ints :: "pyval list \<Rightarrow> error + byte list" where
  "bytes_of_ints [] = Inr []"
| "bytes_of_ints (PInt i # vs) =
     (if 0 \<le> i \<and> i < 256 then
        (case bytes_of_ints vs of Inl err \<Rightarrow> Inl err | Inr b \<Rightarrow> Inr (word_of_int i # b))
      else Inl PyValueError)"
| "bytes_of_ints (PBool t # vs) =
     (case bytes_of_ints vs of
        Inl err \<Rightarrow> Inl err
      | Inr b \<Rightarrow> Inr ((if t then 1 else 0) # b))"
| "bytes_of_ints (v # vs) = Inl PyTypeError"

fun BinaryVariable :: "pyval \<Rightarrow> error + pyval" where
  "BinaryVariable (PBytes b) = Inr (PBinaryVariable b)"
| "BinaryVariable (PBinaryVariable b) = Inr (PBinaryVariable b)"
| "BinaryVariable (PInt i) =
     (if i < 0 then Inl PyValueError else Inr (PBinaryVariable (replicate (nat i) 0)))"
| "BinaryVariable (PBool t) = Inr (PBinaryVariable (replicate (if t then 1 else 0) 0))"
| "BinaryVariable (PStr s) = Inl PyTypeError"
| "BinaryVariable (PStringVariable s) = Inl PyTypeError"
| "BinaryVariable v =
     (case py_iter v of
        Inl err \<Rightarrow> Inl PyTypeError
      | Inr vs \<Rightarrow>
          (case bytes_of_ints vs of Inl err \<Rightarrow> Inl err | Inr b \<Rightarrow> Inr (PBinaryVariable b)))"

subsection \<open>The helpers\<close>

text \<open>
  \<^verbatim>\<open>_decode_binary\<close>: UTF-8, and Latin-1 when that raises \<^verbatim>\<open>UnicodeDecodeError\<close>. A value
  without \<^verbatim>\<open>decode\<close> raises \<^verbatim>\<open>AttributeError\<close>.
\<close>

definition decode_binary :: "pyval \<Rightarrow> error + pyval" where
  "decode_binary data =
     (if is_bytes data then
        (case decode_utf8 (bytes_content data) of
           Inr text \<Rightarrow> Inr (PStr text)
         | Inl UnicodeDecodeError \<Rightarrow> Inr (PStr (decode_latin1 (bytes_content data)))
         | Inl err \<Rightarrow> Inl err)
      else Inl PyAttributeError)"

text \<open>\<^verbatim>\<open>data.decode()\<close> on a bytes value read from the store.\<close>

definition decode_bytes :: "pyval \<Rightarrow> error + pyval" where
  "decode_bytes data =
     (case decode_utf8 (bytes_content data) of
        Inl err \<Rightarrow> Inl err
      | Inr text \<Rightarrow> Inr (PStr text))"

text \<open>
  \<^verbatim>\<open>_deserialize_data\<close>: \<^verbatim>\<open>json.loads\<close>; a \<^verbatim>\<open>ValueError\<close> (a decoding error of JSON or of
  UTF-8) becomes the \<^verbatim>\<open>RuntimeError\<close> of the method.
\<close>

definition deserialize_data :: "pyval \<Rightarrow> error + pyval" where
  "deserialize_data v =
     (case json_loads v of
        Inl PyValueError \<Rightarrow> Inl DeserializationFailure
      | Inl UnicodeDecodeError \<Rightarrow> Inl DeserializationFailure
      | Inl err \<Rightarrow> Inl err
      | Inr data \<Rightarrow> Inr data)"

text \<open>
  \<^verbatim>\<open>_get_data\<close>: the key is stripped; a \<^verbatim>\<open>RuntimeError\<close> of the client is logged and \<^verbatim>\<open>None\<close>
  is returned.
\<close>

definition get_data ::
  "playbook_read \<Rightarrow> key_value_store \<Rightarrow> string \<Rightarrow> pyval \<times> key_value_store" where
  "get_data self store key =
     (case client_read store (pr_context self) (strip key) of
        (Inl err, store') \<Rightarrow> (PNone, store')
      | (Inr data, store') \<Rightarrow> (data, store'))"

text \<open>
  \<^verbatim>\<open>_process_space_patterns\<close>. The first substitution,
  \<^verbatim>\<open>re.sub(r'(?<!\\)\\s', ' ', string)\<close>, replaces a backslash followed by \<^verbatim>\<open>s\<close> by a space
  unless the character before the backslash is a backslash; the scan carries whether
  the previous character of the input was one. The second,
  \<^verbatim>\<open>re.sub(r'\\\\s', r'\\s', string)\<close>, replaces two backslashes followed by \<^verbatim>\<open>s\<close> by one
  backslash followed by \<^verbatim>\<open>s\<close>. Both run from the left over non-overlapping matches.
\<close>

fun sub_space :: "bool \<Rightarrow> string \<Rightarrow> string" where
  "sub_space after_backslash [] = []"
| "sub_space after_backslash [c] = [c]"
| "sub_space after_backslash (c # d # rest) =
     (if c = backslash \<and> d = CHR ''s'' \<and> \<not> after_backslash
      then CHR '' '' # sub_space False rest
      else c # sub_space (c = backslash) (d # rest))"

fun sub_escaped :: "string \<Rightarrow> string" where
  "sub_escaped (c # d # e # rest) =
     (if c = backslash \<and> d = backslash \<and> e = CHR ''s''
      then backslash # CHR ''s'' # sub_escaped rest
      else c # sub_escaped (d # e # rest))"
| "sub_escaped s = s"

definition process_space_patterns :: "string \<Rightarrow> string" where
  "process_space_patterns string = sub_escaped (sub_space False string)"

fun to_array :: "pyval \<Rightarrow> pyval" where
  "to_array PNone = PList []"
| "to_array (PList xs) = PList xs"
| "to_array v = PList [v]"

subsection \<open>The typed read methods that do not resolve embedded variables\<close>

text \<open>
  Every method begins with \<^verbatim>\<open>_null_key_check\<close>: a key of \<^verbatim>\<open>None\<close> returns \<^verbatim>\<open>None\<close>. It is the
  first case of each definition. \<open>b64dec\<close> and \<open>dec\<close> are the parameters \<^verbatim>\<open>b64decode\<close> and
  \<^verbatim>\<open>decode\<close>.
\<close>

definition decode_base64_value :: "bool \<Rightarrow> pyval \<Rightarrow> error + pyval" where
  "decode_base64_value dec data =
     (case b64decode data of
        Inl err \<Rightarrow> Inl err
      | Inr b \<Rightarrow>
          (case BinaryVariable (PBytes b) of
             Inl err \<Rightarrow> Inl err
           | Inr handle \<Rightarrow> if dec then decode_binary handle else Inr handle))"

definition read_binary ::
  "playbook_read \<Rightarrow> key_value_store \<Rightarrow> string option \<Rightarrow> bool \<Rightarrow> bool
     \<Rightarrow> (error + pyval) \<times> key_value_store" where
  "read_binary self store key b64dec dec =
     (case key of
        None \<Rightarrow> (Inr PNone, store)
      | Some k \<Rightarrow>
          (case check_variable_type (pr_util self) k ''Binary'' of
             Inl err \<Rightarrow> (Inl err, store)
           | Inr _ \<Rightarrow>
               (case get_data self store k of
                  (stored, store') \<Rightarrow>
                    if stored = PNone then (Inr PNone, store')
                    else
                      (case deserialize_data stored of
                         Inl err \<Rightarrow> (Inl err, store')
                       | Inr data \<Rightarrow>
                           if b64dec \<and> is_str data then (decode_base64_value dec data, store')
                           else if is_bytes data then (decode_binary data, store')
                           else (Inr data, store')))))"

fun binary_array_values :: "bool \<Rightarrow> bool \<Rightarrow> pyval list \<Rightarrow> error + pyval list" where
  "binary_array_values b64dec dec [] = Inr []"
| "binary_array_values b64dec dec (d # ds) =
     (case (if b64dec \<and> is_str d then decode_base64_value dec d else Inr d) of
        Inl err \<Rightarrow> Inl err
      | Inr d' \<Rightarrow>
          (case binary_array_values b64dec dec ds of
             Inl err \<Rightarrow> Inl err
           | Inr rest \<Rightarrow> Inr (d' # rest)))"

text \<open>
  The common beginning of the other methods: the type check, the read, and for a
  bytes value \<^verbatim>\<open>data.decode()\<close>, then \<^verbatim>\<open>_deserialize_data\<close>. The result \<open>Inr None\<close> is
  the early \<^verbatim>\<open>return None\<close> of a missing value.
\<close>

definition read_and_deserialize ::
  "playbook_read \<Rightarrow> key_value_store \<Rightarrow> string \<Rightarrow> string
     \<Rightarrow> (error + pyval option) \<times> key_value_store" where
  "read_and_deserialize self store k type' =
     (case check_variable_type (pr_util self) k type' of
        Inl err \<Rightarrow> (Inl err, store)
      | Inr _ \<Rightarrow>
          (case get_data self store k of
             (stored, store') \<Rightarrow>
               if stored = PNone then (Inr None, store')
               else
                 (case (if is_bytes stored then decode_bytes stored else Inr stored) of
                    Inl err \<Rightarrow> (Inl err, store')
                  | Inr text \<Rightarrow>
                      (case deserialize_data text of
                         Inl err \<Rightarrow> (Inl err, store')
                       | Inr data \<Rightarrow> (Inr (Some data), store')))))"

definition read_binary_array ::
  "playbook_read \<Rightarrow> key_value_store \<Rightarrow> string option \<Rightarrow> bool \<Rightarrow> bool
     \<Rightarrow> (error + pyval) \<times> key_value_store" where
  "read_binary_array self store key b64dec dec =
     (case key of
        None \<Rightarrow> (Inr PNone, store)
      | Some k \<Rightarrow>
          (case read_and_deserialize self store k ''BinaryArray'' of
             (Inl err, store') \<Rightarrow> (Inl err, store')
           | (Inr None, store') \<Rightarrow> (Inr PNone, store')
           | (Inr (Some data), store') \<Rightarrow>
               (case py_iter data of
                  Inl err \<Rightarrow> (Inl err, store')
                | Inr ds \<Rightarrow>
                    (case binary_array_values b64dec dec ds of
                       Inl err \<Rightarrow> (Inl err, store')
                     | Inr values \<Rightarrow> (Inr (PList values), store')))))"

definition read_string_array ::
  "playbook_read \<Rightarrow> key_value_store \<Rightarrow> string option \<Rightarrow> (error + pyval) \<times> key_value_store" where
  "read_string_array self store key =
     (case key of
        None \<Rightarrow> (Inr PNone, store)
      | Some k \<Rightarrow>
          (case read_and_deserialize self store k ''StringArray'' of
             (Inl err, store') \<Rightarrow> (Inl err, store')
           | (Inr None, store') \<Rightarrow> (Inr PNone, store')
           | (Inr (Some data), store') \<Rightarrow>
               (case py_iter data of
                  Inl err \<Rightarrow> (Inl err, store')
                | Inr ds \<Rightarrow>
                    (Inr (PList (map (\<lambda>d. if d = PNone then d
                                          else StringVariable self (coerce_string_value d)) ds)),
                     store'))))"

text \<open>\<^verbatim>\<open>tc_batch\<close>, \<^verbatim>\<open>tc_entity\<close> and \<^verbatim>\<open>tc_entity_array\<close> differ in the expected type only.\<close>

definition read_plain ::
  "string \<Rightarrow> playbook_read \<Rightarrow> key_value_store \<Rightarrow> string option
     \<Rightarrow> (error + pyval) \<times> key_value_store" where
  "read_plain type' self store key =
     (case key of
        None \<Rightarrow> (Inr PNone, store)
      | Some k \<Rightarrow>
          (case read_and_deserialize self store k type' of
             (Inl err, store') \<Rightarrow> (Inl err, store')
           | (Inr None, store') \<Rightarrow> (Inr PNone, store')
           | (Inr (Some data), store') \<Rightarrow> (Inr data, store')))"

definition read_tc_batch ::
  "playbook_read \<Rightarrow> key_value_store \<Rightarrow> string option \<Rightarrow> (error + pyval) \<times> key_value_store" where
  "read_tc_batch = read_plain ''TCBatch''"

definition read_tc_entity ::
  "playbook_read \<Rightarrow> key_value_store \<Rightarrow> string option \<Rightarrow> (error + pyval) \<times> key_value_store" where
  "read_tc_entity = read_plain ''TCEntity''"

definition read_tc_entity_array ::
  "playbook_read \<Rightarrow> key_value_store \<Rightarrow> string option \<Rightarrow> (error + pyval) \<times> key_value_store" where
  "read_tc_entity_array = read_plain ''TCEntityArray''"

text \<open>\<^verbatim>\<open>raw\<close> calls the client directly: an error of the client is not caught.\<close>

definition read_raw ::
  "playbook_read \<Rightarrow> key_value_store \<Rightarrow> string option \<Rightarrow> (error + pyval) \<times> key_value_store" where
  "read_raw self store key =
     (case key of
        None \<Rightarrow> (Inr PNone, store)
      | Some k \<Rightarrow> client_read store (pr_context self) (strip k))"

subsection \<open>Embedded variables\<close>

text \<open>
  The end of \<^verbatim>\<open>any\<close>: a result other than \<^verbatim>\<open>None\<close> of the four string and binary types is
  wrapped in its handle, element by element for the array types.
\<close>

fun binary_handles :: "pyval list \<Rightarrow> error + pyval list" where
  "binary_handles [] = Inr []"
| "binary_handles (v # vs) =
     (case (if v = PNone then Inr v else BinaryVariable v) of
        Inl err \<Rightarrow> Inl err
      | Inr v' \<Rightarrow>
          (case binary_handles vs of Inl err \<Rightarrow> Inl err | Inr rest \<Rightarrow> Inr (v' # rest)))"

definition wrap_handles :: "playbook_read \<Rightarrow> string \<Rightarrow> pyval \<Rightarrow> error + pyval" where
  "wrap_handles self variable_type v =
     (if v = PNone then Inr v
      else if variable_type = ''binary'' then BinaryVariable v
      else if variable_type = ''binaryarray'' then
        (case py_iter v of
           Inl err \<Rightarrow> Inl err
         | Inr vs \<Rightarrow>
             (case binary_handles vs of Inl err \<Rightarrow> Inl err | Inr hs \<Rightarrow> Inr (PList hs)))
      else if variable_type = ''string'' then Inr (StringVariable self v)
      else if variable_type = ''stringarray'' then
        (case py_iter v of
           Inl err \<Rightarrow> Inl err
         | Inr vs \<Rightarrow>
             Inr (PList (map (\<lambda>x. if x = PNone then x else StringVariable self x) vs)))
      else Inr v)"

text \<open>
  One round of the loop of \<^verbatim>\<open>_read_embedded\<close>, after the value \<open>v\<close> of the matched
  variable has been fetched: the replacement of binary types by \<^verbatim>\<open><binary>\<close>, the
  serialization of a dict or list, \<^verbatim>\<open><null>\<close> for \<^verbatim>\<open>None\<close>, and then the three cases that
  update \<^verbatim>\<open>value_\<close>, here \<open>acc\<close>. \<^verbatim>\<open>value_ == variable\<close> holds for a string with the
  text of the variable.
\<close>

fun sensitive_value :: "pyval \<Rightarrow> string" where
  "sensitive_value (PSensitive s) = s"
| "sensitive_value v = []"

definition embed :: "pyval \<Rightarrow> rematch \<Rightarrow> pyval \<Rightarrow> error + pyval" where
  "embed acc m fetched =
     (let variable = group0 m;
          v1 = (if group_type m = Some ''Binary'' \<or> group_type m = Some ''BinaryArray''
                then PStr ''<binary>'' else fetched)
      in case (if is_dict v1 \<or> is_list v1 then
                 (case json_dumps v1 of Inl err \<Rightarrow> Inl err | Inr text \<Rightarrow> Inr (PStr text))
               else if v1 = PNone then Inr (PStr ''<null>'')
               else Inr v1) of
           Inl err \<Rightarrow> Inl err
         | Inr v \<Rightarrow>
             Inr (if is_sensitive v \<and> is_str acc \<and> str_text acc = variable then v
                  else if is_str acc \<and> is_sensitive v
                    then PStr (replace (str_text acc) variable (sensitive_value v))
                  else if is_str acc \<and> is_str v
                    then PStr (replace (str_text acc) variable (str_text v))
                  else acc))"

text \<open>\<^verbatim>\<open>data['value']\<close> and \<^verbatim>\<open>data['value'] = v\<close>.\<close>

fun get_item :: "pyval \<Rightarrow> string \<Rightarrow> error + pyval" where
  "get_item (PDict d) k = (case map_of d k of None \<Rightarrow> Inl PyKeyError | Some v \<Rightarrow> Inr v)"
| "get_item v k = Inl PyTypeError"

fun set_item :: "pyval \<Rightarrow> string \<Rightarrow> pyval \<Rightarrow> pyval" where
  "set_item (PDict d) k v = PDict (dict_set d k v)"
| "set_item data k v = data"

text \<open>
  The methods that call each other are \<^verbatim>\<open>any\<close>, \<^verbatim>\<open>string\<close>, \<^verbatim>\<open>key_value\<close>,
  \<^verbatim>\<open>key_value_array\<close>, \<^verbatim>\<open>_process_key_value\<close> and \<^verbatim>\<open>_read_embedded\<close>: \<^verbatim>\<open>any\<close> calls the typed
  methods, and three of them come back to \<^verbatim>\<open>any\<close> through \<^verbatim>\<open>_read_embedded\<close> or
  \<^verbatim>\<open>_process_key_value\<close>. Each of the other five takes the method \<^verbatim>\<open>self.any\<close> that it
  calls as its first argument: a function from the store and the key to the result
  and the store.
\<close>

type_synonym any_method =
  "key_value_store \<Rightarrow> string option \<Rightarrow> (error + pyval) \<times> key_value_store"

text \<open>The loop of \<^verbatim>\<open>_read_embedded\<close> over the matches, and the method.\<close>

fun embed_matches ::
  "any_method \<Rightarrow> playbook_read \<Rightarrow> key_value_store \<Rightarrow> pyval \<Rightarrow> rematch list
     \<Rightarrow> (error + pyval) \<times> key_value_store" where
  "embed_matches any self store acc [] = (Inr acc, store)"
| "embed_matches any self store acc (m # ms) =
     (case (if group_origin m = ''#'' then any store (Some (group0 m))
            else if group_origin m = ''&'' then (pr_resolve_variable self (group0 m), store)
            else (Inr PNone, store)) of
        (Inl err, store') \<Rightarrow> (Inl err, store')
      | (Inr fetched, store') \<Rightarrow>
          (case embed acc m fetched of
             Inl err \<Rightarrow> (Inl err, store')
           | Inr acc' \<Rightarrow> embed_matches any self store' acc' ms))"

definition read_embedded ::
  "any_method \<Rightarrow> playbook_read \<Rightarrow> key_value_store \<Rightarrow> pyval
     \<Rightarrow> (error + pyval) \<times> key_value_store" where
  "read_embedded any self store v =
     (if v = PNone then (Inr v, store)
      else embed_matches any self store v
             (variable_expansion_pattern (pr_util self) (py_str self v)))"

definition read_string ::
  "any_method \<Rightarrow> playbook_read \<Rightarrow> key_value_store \<Rightarrow> string option \<Rightarrow> bool
     \<Rightarrow> (error + pyval) \<times> key_value_store" where
  "read_string any self store key resolve_embedded =
     (case key of
        None \<Rightarrow> (Inr PNone, store)
      | Some k \<Rightarrow>
          (case read_and_deserialize self store k ''String'' of
             (Inl err, store') \<Rightarrow> (Inl err, store')
           | (Inr None, store') \<Rightarrow> (Inr PNone, store')
           | (Inr (Some data), store') \<Rightarrow>
               if resolve_embedded \<and> \<not> is_playbook_variable (pr_util self) data then
                 (case read_embedded any self store' data of
                    (Inl err, store'') \<Rightarrow> (Inl err, store'')
                  | (Inr data', store'') \<Rightarrow> (Inr (coerce_string_value data'), store''))
               else (Inr (coerce_string_value data), store')))"

text \<open>
  \<^verbatim>\<open>_process_key_value\<close>. A value that \<^verbatim>\<open>is_playbook_variable\<close> accepts is a string (the
  key of \<^verbatim>\<open>any\<close>); the model does not follow any other value there.
\<close>

definition process_key_value ::
  "any_method \<Rightarrow> playbook_read \<Rightarrow> key_value_store \<Rightarrow> pyval \<Rightarrow> bool
     \<Rightarrow> (error + pyval) \<times> key_value_store" where
  "process_key_value any self store data resolve_embedded =
     (if resolve_embedded then
        (case get_item data ''value'' of
           Inl err \<Rightarrow> (Inl err, store)
         | Inr v \<Rightarrow>
             (case (if is_playbook_variable (pr_util self) v then
                      (if v = PNone then any store None
                       else if is_str v then any store (Some (str_text v))
                       else (Inl Unmodelled, store))
                    else read_embedded any self store v) of
                (Inl err, store') \<Rightarrow> (Inl err, store')
              | (Inr v', store') \<Rightarrow> (Inr (set_item data ''value'' v'), store')))
      else (Inr data, store))"

definition read_key_value ::
  "any_method \<Rightarrow> playbook_read \<Rightarrow> key_value_store \<Rightarrow> string option \<Rightarrow> bool
     \<Rightarrow> (error + pyval) \<times> key_value_store" where
  "read_key_value any self store key resolve_embedded =
     (case key of
        None \<Rightarrow> (Inr PNone, store)
      | Some k \<Rightarrow>
          (case check_variable_type (pr_util self) k ''KeyValue'' of
             Inl err \<Rightarrow> (Inl err, store)
           | Inr _ \<Rightarrow>
               (case get_data self store k of
                  (stored, store') \<Rightarrow>
                    if stored = PNone then (Inr PNone, store')
                    else
                      (case deserialize_data stored of
                         Inl err \<Rightarrow> (Inl err, store')
                       | Inr data \<Rightarrow> process_key_value any self store' data resolve_embedded))))"

fun process_key_values ::
  "any_method \<Rightarrow> playbook_read \<Rightarrow> key_value_store \<Rightarrow> bool \<Rightarrow> pyval list
     \<Rightarrow> (error + pyval list) \<times> key_value_store" where
  "process_key_values any self store resolve_embedded [] = (Inr [], store)"
| "process_key_values any self store resolve_embedded (d # ds) =
     (case process_key_value any self store d resolve_embedded of
        (Inl err, store') \<Rightarrow> (Inl err, store')
      | (Inr d', store') \<Rightarrow>
          (case process_key_values any self store' resolve_embedded ds of
             (Inl err, store'') \<Rightarrow> (Inl err, store'')
           | (Inr rest, store'') \<Rightarrow> (Inr (d' # rest), store'')))"

definition read_key_value_array ::
  "any_method \<Rightarrow> playbook_read \<Rightarrow> key_value_store \<Rightarrow> string option \<Rightarrow> bool
     \<Rightarrow> (error + pyval) \<times> key_value_store" where
  "read_key_value_array any self store key resolve_embedded =
     (case key of
        None \<Rightarrow> (Inr PNone, store)
      | Some k \<Rightarrow>
          (case read_and_deserialize self store k ''KeyValueArray'' of
             (Inl err, store') \<Rightarrow> (Inl err, store')
           | (Inr None, store') \<Rightarrow> (Inr PNone, store')
           | (Inr (Some data), store') \<Rightarrow>
               (case py_iter data of
                  Inl err \<Rightarrow> (Inl err, store')
                | Inr ds \<Rightarrow>
                    (case process_key_values any self store' resolve_embedded ds of
                       (Inl err, store'') \<Rightarrow> (Inl err, store'')
                     | (Inr values, store'') \<Rightarrow> (Inr (PList values), store'')))))"

text \<open>
  The typed read method of a wire type. The two flags are \<^verbatim>\<open>b64decode\<close> and \<^verbatim>\<open>decode\<close> for
  the binary types; the first is \<^verbatim>\<open>resolve_embedded\<close> for \<^verbatim>\<open>string\<close>, \<^verbatim>\<open>key_value\<close> and
  \<^verbatim>\<open>key_value_array\<close>; the other methods have none.
\<close>

fun read_method ::
  "wire_type \<Rightarrow> bool \<Rightarrow> bool \<Rightarrow> any_method \<Rightarrow> playbook_read \<Rightarrow> any_method" where
  "read_method Binary f g any self store key = read_binary self store key f g"
| "read_method BinaryArray f g any self store key = read_binary_array self store key f g"
| "read_method KeyValue f g any self store key = read_key_value any self store key f"
| "read_method KeyValueArray f g any self store key = read_key_value_array any self store key f"
| "read_method String f g any self store key = read_string any self store key f"
| "read_method StringArray f g any self store key = read_string_array self store key"
| "read_method TCBatch f g any self store key = read_tc_batch self store key"
| "read_method TCEntity f g any self store key = read_tc_entity self store key"
| "read_method TCEntityArray f g any self store key = read_tc_entity_array self store key"

text \<open>
  The body of \<^verbatim>\<open>any\<close>, given the \<^verbatim>\<open>any\<close> that the typed methods call back. The typed
  methods are called with their default flags (\<^verbatim>\<open>resolve_embedded=True\<close>,
  \<^verbatim>\<open>b64decode=True\<close>, \<^verbatim>\<open>decode=False\<close>); a type outside \<^verbatim>\<open>variable_type_map\<close> is read raw.
\<close>

definition read_typed ::
  "any_method \<Rightarrow> playbook_read \<Rightarrow> wire_type option \<Rightarrow> any_method" where
  "read_typed any self w store key =
     (case w of
        Some t \<Rightarrow> read_method t True False any self store key
      | None \<Rightarrow> read_raw self store key)"

definition any_body :: "any_method \<Rightarrow> playbook_read \<Rightarrow> any_method" where
  "any_body any self store key =
     (case key of
        None \<Rightarrow> (Inr PNone, store)
      | Some k \<Rightarrow>
          (case get_playbook_variable_type (pr_util self) (strip k) of
             None \<Rightarrow> (Inl PyAttributeError, store)
           | Some t \<Rightarrow>
               (case read_typed any self (variable_type_map (lower t)) store (Some (strip k)) of
                  (Inl err, store') \<Rightarrow> (Inl err, store')
                | (Inr v, store') \<Rightarrow> (wrap_handles self (lower t) v, store'))))"

text \<open>
  \<^verbatim>\<open>any\<close> itself. Nothing in the code bounds the depth of the calls from \<^verbatim>\<open>any\<close> back to
  \<^verbatim>\<open>any\<close>; the interpreter does. The first argument is the number of nested calls of
  \<^verbatim>\<open>any\<close> that are left; with none left the call raises \<^verbatim>\<open>RecursionError\<close>.
\<close>

primrec read_any :: "nat \<Rightarrow> playbook_read \<Rightarrow> any_method" where
  "read_any 0 self = (\<lambda>store key. (Inl RecursionError, store))"
| "read_any (Suc n) self = any_body (read_any n self) self"

text \<open>The end of \<^verbatim>\<open>variable\<close>: the conversion of the result to a list when \<^verbatim>\<open>array\<close> is set.\<close>

definition as_array :: "bool \<Rightarrow> (error + pyval) \<times> key_value_store \<Rightarrow> (error + pyval) \<times> key_value_store" where
  "as_array array result =
     (case result of
        (Inl err, store') \<Rightarrow> (Inl err, store')
      | (Inr v, store') \<Rightarrow>
          (Inr (if array then
                  (if is_list v \<or> is_str v then to_array v
                   else if v = PNone then PList []
                   else v)
                else v),
           store'))"

text \<open>
  \<^verbatim>\<open>variable\<close>: a key that matches the variable pattern is read with \<^verbatim>\<open>any\<close>; any other
  string has its space patterns replaced and its embedded variables resolved.
\<close>

definition read_variable ::
  "any_method \<Rightarrow> playbook_read \<Rightarrow> key_value_store \<Rightarrow> string option \<Rightarrow> bool
     \<Rightarrow> (error + pyval) \<times> key_value_store" where
  "read_variable any self store key array =
     as_array array
       (case key of
          None \<Rightarrow> (Inr PNone, store)
        | Some k \<Rightarrow>
            if variable_playbook_match (pr_util self) (strip k)
            then any store (Some (strip k))
            else read_embedded any self store (PStr (process_space_patterns k)))"

section \<open>The variable grammar, for concrete inputs\<close>

text \<open>
  Modelled from the spec: the members of \<^verbatim>\<open>Util\<close> that the modules use. Sections 3, 4.1
  and 6 of the specification give the grammar
  \<^verbatim>\<open><origin><producer-id>:<context-id>:<key>!<Type>\<close> with origin \<^verbatim>\<open>#\<close> or \<^verbatim>\<open>&\<close>; \<^verbatim>\<open>isVariable\<close> is
  a match of the whole text, \<^verbatim>\<open>classifyType\<close> is the type tag of a well-formed variable
  and none otherwise, and embedded resolution scans for the non-overlapping matches of
  the grammar. The specification does not spell out the characters of the four fields;
  here the producer is a run of letters, the context a run of letters, digits and
  underscores, the key a run of those and of \<^verbatim>\<open>.-[]\<close>, and the type a run of letters,
  digits, underscores and hyphens, each non-empty and as long as possible.
\<close>

definition is_alpha :: "char \<Rightarrow> bool" where
  "is_alpha c =
     (let n = (of_char c :: nat) in (65 \<le> n \<and> n \<le> 90) \<or> (97 \<le> n \<and> n \<le> 122))"

definition is_word_char :: "char \<Rightarrow> bool" where
  "is_word_char c = (is_alpha c \<or> is_digit c \<or> c = CHR ''_'')"

definition is_key_char :: "char \<Rightarrow> bool" where
  "is_key_char c =
     (is_word_char c \<or> c = CHR ''.'' \<or> c = CHR ''-'' \<or> c = CHR ''['' \<or> c = CHR '']'')"

definition is_type_char :: "char \<Rightarrow> bool" where
  "is_type_char c = (is_word_char c \<or> c = CHR ''-'')"

text \<open>
  One field: the longest non-empty run of characters of the class, followed by the
  delimiter. The result is the field and the input after the delimiter.
\<close>

definition scan_field :: "(char \<Rightarrow> bool) \<Rightarrow> char \<Rightarrow> string \<Rightarrow> (string \<times> string) option" where
  "scan_field cls delim s =
     (case dropWhile cls s of
        [] \<Rightarrow> None
      | d # rest \<Rightarrow> if takeWhile cls s \<noteq> [] \<and> d = delim then Some (takeWhile cls s, rest) else None)"

text \<open>
  A match of the grammar at the head of the input: the origin, the key, the type and
  the input after the match.
\<close>

definition match_variable :: "string \<Rightarrow> (char \<times> string \<times> string \<times> string) option" where
  "match_variable s =
     (case s of
        [] \<Rightarrow> None
      | origin # s1 \<Rightarrow>
          if origin \<noteq> CHR ''#'' \<and> origin \<noteq> CHR ''&'' then None
          else
            (case scan_field is_alpha CHR '':'' s1 of
               None \<Rightarrow> None
             | Some (producer, s2) \<Rightarrow>
                 (case scan_field is_word_char CHR '':'' s2 of
                    None \<Rightarrow> None
                  | Some (ctx, s3) \<Rightarrow>
                      (case scan_field is_key_char CHR ''!'' s3 of
                         None \<Rightarrow> None
                       | Some (k, s4) \<Rightarrow>
                           if takeWhile is_type_char s4 = [] then None
                           else Some (origin, k, takeWhile is_type_char s4,
                                      dropWhile is_type_char s4)))))"

definition full_match :: "string \<Rightarrow> variable_model option" where
  "full_match s =
     (case match_variable s of
        None \<Rightarrow> None
      | Some (origin, k, t, rest) \<Rightarrow>
          if rest = [] then Some \<lparr>model_key = k, model_type = t\<rparr> else None)"

text \<open>
  All non-overlapping matches from the left. The counter is the number of characters of
  the last match still to be passed over.
\<close>

fun find_variables :: "nat \<Rightarrow> string \<Rightarrow> rematch list" where
  "find_variables k [] = []"
| "find_variables (Suc k) (c # cs) = find_variables k cs"
| "find_variables 0 (c # cs) =
     (case match_variable (c # cs) of
        None \<Rightarrow> find_variables 0 cs
      | Some (origin, key, t, rest) \<Rightarrow>
          \<lparr>group0 = take (length (c # cs) - length rest) (c # cs),
            group_origin = [origin], group_type = Some t\<rparr>
          # find_variables (length cs - length rest) cs)"

definition spec_util :: util where
  "spec_util =
     \<lparr>get_playbook_variable_type = (\<lambda>s. map_option model_type (full_match s)),
      get_playbook_variable_model = full_match,
      is_playbook_variable = (\<lambda>v. case v of PStr s \<Rightarrow> full_match s \<noteq> None
                                       | PStringVariable s \<Rightarrow> full_match s \<noteq> None
                                       | _ \<Rightarrow> False),
      variable_expansion_pattern = find_variables 0,
      variable_playbook_match = (\<lambda>s. full_match s \<noteq> None)\<rparr>"

section \<open>Notions used in the statements\<close>



definition sixbit :: "byte \<Rightarrow> bool" where
  "sixbit i = (take_bit 6 i = i)"

text \<open>
  The space-escape transform as the specification words it, reading the text once
  from the left: two backslashes followed by \<^verbatim>\<open>s\<close> become a backslash and \<^verbatim>\<open>s\<close>; a
  backslash followed by \<^verbatim>\<open>s\<close> that is not preceded by a backslash becomes a space;
  every other character is kept. The first argument is the character before the
  current position, if there is one.
\<close>

fun space_escape :: "char option \<Rightarrow> string \<Rightarrow> string" where
  "space_escape prev (c # d # e # rest) =
     (if c = backslash \<and> d = backslash \<and> e = CHR ''s''
      then backslash # CHR ''s'' # space_escape (Some e) rest
      else if c = backslash \<and> d = CHR ''s'' \<and> prev \<noteq> Some backslash
      then CHR '' '' # space_escape (Some d) (e # rest)
      else c # space_escape (Some c) (d # e # rest))"
| "space_escape prev [c, d] =
     (if c = backslash \<and> d = CHR ''s'' \<and> prev \<noteq> Some backslash then '' '' else [c, d])"
| "space_escape prev s = s"

text \<open>
  Concrete objects for the examples: a store with no entries, a writer whose
  downstream apps requested a String and a Binary variable, and a reader whose
  platform resolver knows one confidential variable.
\<close>

definition empty_store :: key_value_store where
  "empty_store = \<lparr>kv_redis = False, kv_down = False, kv_entries = [], kv_calls = []\<rparr>"

definition example_writer :: playbook_create where
  "example_writer =
     \<lparr>pc_context = ''ctx'',
      pc_output_variables = [''#App:1:color!String'', ''#App:1:blob!Binary''],
      pc_util = spec_util, pc_write_null = False\<rparr>"

definition example_reader :: playbook_read where
  "example_reader =
     \<lparr>pr_context = ''ctx'', pr_util = spec_util,
      pr_resolve_variable =
        (\<lambda>variable. if variable = ''&TC:KEYCHAIN:7!String'' then Inr (PSensitive ''s3cret'')
                    else Inr PNone),
      pr_repr = (\<lambda>v. ''<object>'')\<rparr>"

text \<open>
  The JSON text of a string without characters to escape, and two stores: the
  example of the specification, and a store whose String variables refer to each
  other in a chain and in a circle.
\<close>

definition quoted :: "string \<Rightarrow> string" where
  "quoted s = dquote # s @ [dquote]"

definition greeting_store :: key_value_store where
  "greeting_store =
     \<lparr>kv_redis = False, kv_down = False,
      kv_entries =
        [((''ctx'', ''#App:1:greeting!String''), PStr (quoted ''hello #App:1:x!String world'')),
         ((''ctx'', ''#App:1:x!String''), PStr (quoted ''there''))],
      kv_calls = []\<rparr>"

definition nested_store :: key_value_store where
  "nested_store =
     \<lparr>kv_redis = False, kv_down = False,
      kv_entries =
        [((''ctx'', ''#App:1:a!String''), PStr (quoted ''x #App:1:b!String'')),
         ((''ctx'', ''#App:1:b!String''), PStr (quoted ''y #App:1:c!String'')),
         ((''ctx'', ''#App:1:c!String''), PStr (quoted ''z'')),
         ((''ctx'', ''#App:1:loop!String''), PStr (quoted ''again #App:1:loop!String''))],
      kv_calls = []\<rparr>"



definition token_loop :: rematch where
  "token_loop =
     \<lparr>group0 = ''#App:1:loop!String'', group_origin = ''#'', group_type = Some ''String''\<rparr>"

section \<open>Key resolution\<close>

lemma lookup_output_variable_find:
  "lookup_output_variable u (Some key) type_hint ovs = find (bare_key_matches u key type_hint) ovs"
  by (induction ovs) (auto simp: bare_key_matches_def split: option.splits)

text \<open>
  Claim C8. Key resolution (\<^verbatim>\<open>_get_variable\<close>): a key that satisfies the variable grammar
  is returned unchanged whatever the type hint; a bare key is resolved to the first
  entry of the requested output variables, in declaration order, whose bare key is the
  key and, when a type hint is given, whose type equals the hint exactly; when no entry
  matches the result is none.
\<close>

theorem get_variable_resolve:
  "get_variable u output_variables (Some key) type_hint
     = resolve u key output_variables type_hint"
  by (simp add: get_variable_def resolve_def lookup_output_variable_find)

section \<open>Writes that are not requested\<close>

lemmas create_defs = create_binary_def create_binary_array_def create_key_value_def
  create_key_value_array_def create_string_def create_string_array_def create_tc_batch_def
  create_tc_entity_def create_tc_entity_array_def







section \<open>Null values\<close>

text \<open>
  Claim C4. Every typed write method called with the value \<^verbatim>\<open>None\<close> returns \<^verbatim>\<open>None\<close>,
  whatever the key and the flags. The store is left as it was, with one exception: when
  \<^verbatim>\<open>TC_PLAYBOOK_WRITE_NULL\<close> is set and the client is a \<^verbatim>\<open>KeyValueRedis\<close>, the empty string
  is written under the key \<^verbatim>\<open><variable>_NULL_VALIDATION\<close>, where the variable is the key
  resolved without a type hint.
\<close>

theorem null_value_write:
  "create_typed w self store key PNone validate when_requested
     = (Inr PNone,
        if pc_write_null self \<and> kv_redis store
        then redis_hset store (pc_context self)
               (format_variable (get_variable (pc_util self) (pc_output_variables self) key None)
                  @ ''_NULL_VALIDATION'') (PStr [])
        else store)"
  by (cases w) (simp_all add: create_defs check_null_def)

theorem null_value_write_witness:
  "create_typed String (example_writer\<lparr>pc_write_null := True\<rparr>) (empty_store\<lparr>kv_redis := True\<rparr>)
      (Some ''color'') PNone True True
     = (Inr PNone,
        \<lparr>kv_redis = True, kv_down = False,
         kv_entries = [((''ctx'', ''#App:1:color!String_NULL_VALIDATION''), PStr [])],
         kv_calls = [Hset ''ctx'' ''#App:1:color!String_NULL_VALIDATION'' (PStr [])]\<rparr>)
   \<and> create_typed String example_writer empty_store (Some ''color'') PNone True True
     = (Inr PNone, empty_store)"
proof -
  have a: "get_variable spec_util [''#App:1:color!String'', ''#App:1:blob!Binary'']
             (Some ''color'') None = Some ''#App:1:color!String''"
    by code_simp
  show ?thesis
    using null_value_write [of String "example_writer\<lparr>pc_write_null := True\<rparr>"
            "empty_store\<lparr>kv_redis := True\<rparr>" "Some ''color''" True True]
      null_value_write [of String example_writer empty_store "Some ''color''" True True]
    by (simp add: example_writer_def empty_store_def a redis_hset_def)
qed

section \<open>Raw writes\<close>

text \<open>
  Claim C10, as amended. For every key and every value other than \<^verbatim>\<open>None\<close>, \<^verbatim>\<open>raw\<close> issues
  the \<^verbatim>\<open>create\<close> call of the store for the value under the key stripped of leading and
  trailing whitespace, whatever \<^verbatim>\<open>validate\<close> and \<^verbatim>\<open>when_requested\<close> are and without
  consulting the variable grammar or the requested output variables. The value is
  stored and the handle returned unless the client raises, in which case \<^verbatim>\<open>None\<close> is
  returned.
\<close>

theorem raw_write:
  assumes "v \<noteq> PNone"
  shows "create_raw self store (Some k) v validate when_requested =
     (if kv_down store
      then (Inr PNone,
            store\<lparr>kv_calls := kv_calls store @ [Create (pc_context self) (strip k) v]\<rparr>)
      else (Inr (PInt 1),
            store\<lparr>kv_calls := kv_calls store @ [Create (pc_context self) (strip k) v],
                  kv_entries := table_set (kv_entries store) (pc_context self, strip k) v\<rparr>))"
  using assms by (simp add: create_raw_def check_null_def create_data_def client_create_def)

text \<open>
  The claim as stated fails: a key with a leading space is not the key the value is
  stored under.
\<close>

theorem raw_write_counterexample:
  "map_of (kv_entries (snd (create_raw example_writer empty_store (Some '' app.note'')
                              (PStr ''text'') True True)))
       (''ctx'', '' app.note'') = None
   \<and> map_of (kv_entries (snd (create_raw example_writer empty_store (Some '' app.note'')
                                (PStr ''text'') True True)))
       (''ctx'', ''app.note'') = Some (PStr ''text'')"
  by code_simp

theorem raw_write_witness:
  "PStr ''text'' \<noteq> PNone
   \<and> create_raw example_writer empty_store (Some '' app.note'') (PStr ''text'') False False
      = (Inr (PInt 1),
         \<lparr>kv_redis = False, kv_down = False,
          kv_entries = [((''ctx'', ''app.note''), PStr ''text'')],
          kv_calls = [Create ''ctx'' ''app.note'' (PStr ''text'')]\<rparr>)"
proof -
  have s: "strip '' app.note'' = ''app.note''" by code_simp
  show ?thesis
    using raw_write [of "PStr ''text''" example_writer empty_store "'' app.note''" False False]
    by (simp add: example_writer_def empty_store_def s)
qed

section \<open>Base64\<close>

lemma and3: "(a::byte) AND 3 = take_bit 2 a"
  by (simp add: take_bit_eq_mask mask_eq_exp_minus_1)
lemma and15: "(a::byte) AND 15 = take_bit 4 a"
  by (simp add: take_bit_eq_mask mask_eq_exp_minus_1)
lemma and63: "(a::byte) AND 63 = take_bit 6 a"
  by (simp add: take_bit_eq_mask mask_eq_exp_minus_1)

lemma byte_bit: "bit (a::byte) n \<Longrightarrow> n < 8"
  by (auto dest: bit_imp_le_length)

lemma sucsuc: "2 \<le> n \<Longrightarrow> Suc (Suc (n - 2)) = n" by simp

lemma q1: "push_bit 2 (drop_bit 2 a) OR drop_bit 4 (push_bit 4 (a AND 3) OR drop_bit 4 b) = (a::byte)"
  unfolding and3
proof (rule bit_word_eqI)
  fix n assume "n < LENGTH(8)"
  then have n: "n < 8" by simp
  show "bit (push_bit 2 (drop_bit 2 a) OR drop_bit 4 (push_bit 4 (take_bit 2 a) OR drop_bit 4 b)) n = bit a n"
    using n by (cases "2 \<le> n") (auto simp: bit_simps sucsuc)
qed

lemma q1': "push_bit 2 (drop_bit 2 a) OR drop_bit 4 (push_bit 4 (a AND 3)) = (a::byte)"
  using q1 [of a 0] by simp

lemma q2: "push_bit 4 ((push_bit 4 (a AND 3) OR drop_bit 4 b) AND 15) OR drop_bit 2 (push_bit 2 (b AND 15) OR drop_bit 6 c) = (b::byte)"
  unfolding and3 and15
proof (rule bit_word_eqI)
  fix n assume "n < LENGTH(8)"
  then have n: "n < 8" by simp
  show "bit (push_bit 4 (take_bit 4 (push_bit 4 (take_bit 2 a) OR drop_bit 4 b)) OR drop_bit 2 (push_bit 2 (take_bit 4 b) OR drop_bit 6 c)) n = bit b n"
    using n by (cases "4 \<le> n") (auto simp: bit_simps)
qed

lemma q2': "push_bit 4 ((push_bit 4 (a AND 3) OR drop_bit 4 b) AND 15) OR drop_bit 2 (push_bit 2 (b AND 15)) = (b::byte)"
  using q2 [of a b 0] by simp

lemma q3: "push_bit 6 ((push_bit 2 (b AND 15) OR drop_bit 6 c) AND 3) OR (c AND 63) = (c::byte)"
  unfolding and3 and15 and63
proof (rule bit_word_eqI)
  fix n assume "n < LENGTH(8)"
  then have n: "n < 8" by simp
  show "bit (push_bit 6 (take_bit 2 (push_bit 2 (take_bit 4 b) OR drop_bit 6 c)) OR take_bit 6 c) n = bit c n"
    using n by (cases "6 \<le> n") (auto simp: bit_simps)
qed

lemma six1: "sixbit (drop_bit 2 (a::byte))"
  unfolding sixbit_def by (rule bit_word_eqI) (auto simp: bit_simps dest: byte_bit)
lemma six2: "sixbit (push_bit 4 (a AND 3) OR drop_bit 4 (b::byte))"
  unfolding sixbit_def and3 by (rule bit_word_eqI) (auto simp: bit_simps dest: byte_bit)
lemma six2': "sixbit (push_bit 4 ((a::byte) AND 3))"
  using six2 [of a 0] by simp
lemma six3: "sixbit (push_bit 2 (b AND 15) OR drop_bit 6 (c::byte))"
  unfolding sixbit_def and15 by (rule bit_word_eqI) (auto simp: bit_simps dest: byte_bit)
lemma six3': "sixbit (push_bit 2 ((b::byte) AND 15))"
  using six3 [of b 0] by simp
lemma six4: "sixbit ((c::byte) AND 63)"
  by (simp add: sixbit_def and63)

lemma tab: "list_all (\<lambda>n. table_a2b_base64 (b2a (of_nat n)) = Some (of_nat n)
     \<and> b2a (of_nat n) \<noteq> BASE64_PAD \<and> b2a (of_nat n) < 0x80) [0..<64]"
  by code_simp

lemma sixbit_unat: "sixbit i \<Longrightarrow> unat i < 64"
proof -
  assume "sixbit i"
  then have "unat i = unat (take_bit 6 i)" by (simp add: sixbit_def)
  also have "\<dots> = take_bit 6 (unat i)" by (simp add: unsigned_take_bit_eq)
  also have "\<dots> < 2 ^ 6" by (rule take_bit_nat_less_exp)
  finally show ?thesis by simp
qed

lemma b2a_props:
  assumes "sixbit i"
  shows "table_a2b_base64 (b2a i) = Some i" "b2a i \<noteq> BASE64_PAD" "b2a i < 0x80"
proof -
  have "unat i \<in> set [0..<64]" using sixbit_unat [OF assms] by simp
  with tab have "table_a2b_base64 (b2a (of_nat (unat i))) = Some (of_nat (unat i))
     \<and> b2a (of_nat (unat i)) \<noteq> BASE64_PAD \<and> b2a (of_nat (unat i)) < 0x80"
    unfolding list_all_iff by blast
  then show "table_a2b_base64 (b2a i) = Some i" "b2a i \<noteq> BASE64_PAD" "b2a i < 0x80" by simp_all
qed

lemma step0: "sixbit v \<Longrightarrow> a2b_loop 0 l p out (b2a v # rest) = a2b_loop 1 v 0 out rest"
  by (simp add: b2a_props)
lemma step1: "sixbit v \<Longrightarrow> a2b_loop 1 l p out (b2a v # rest)
    = a2b_loop 2 (v AND 15) 0 (out @ [push_bit 2 l OR drop_bit 4 v]) rest"
  by (simp add: b2a_props)
lemma step2: "sixbit v \<Longrightarrow> a2b_loop 2 l p out (b2a v # rest)
    = a2b_loop 3 (v AND 3) 0 (out @ [push_bit 4 l OR drop_bit 2 v]) rest"
  by (simp add: b2a_props)
lemma step3: "sixbit v \<Longrightarrow> a2b_loop 3 l p out (b2a v # rest)
    = a2b_loop 0 0 0 (out @ [push_bit 6 l OR v]) rest"
  by (simp add: b2a_props)
lemma pad2: "a2b_loop 2 l 0 out (BASE64_PAD # BASE64_PAD # rest) = Inr out"
  by simp
lemma pad3: "a2b_loop 3 l 0 out (BASE64_PAD # rest) = Inr out"
  by simp

lemma a2b_loop_b2a:
  "a2b_loop 0 0 0 out (b2a_base64 bs @ rest) =
     (if length bs mod 3 = 0 then a2b_loop 0 0 0 (out @ bs) rest else Inr (out @ bs))"
proof (induction bs arbitrary: out rule: b2a_base64.induct)
  case 1
  show ?case by simp
next
  case (2 a)
  have "a2b_loop 0 0 0 out (b2a_base64 [a] @ rest) = Inr (out @ [a])"
    by (simp only: b2a_base64.simps append_Cons append_Nil step0 [OF six1] step1 [OF six2']
          pad2 q1' append_assoc)
  then show ?case by simp
next
  case (3 a b)
  have "a2b_loop 0 0 0 out (b2a_base64 [a, b] @ rest) = Inr (out @ [a, b])"
    by (simp only: b2a_base64.simps append_Cons append_Nil step0 [OF six1] step1 [OF six2]
          step2 [OF six3'] pad3 q1 q2' append_assoc)
  then show ?case by simp
next
  case (4 a b c rest')
  have "a2b_loop 0 0 0 out (b2a_base64 (a # b # c # rest') @ rest)
      = a2b_loop 0 0 0 (out @ [a, b, c]) (b2a_base64 rest' @ rest)"
    by (simp only: b2a_base64.simps append_Cons append_Nil step0 [OF six1] step1 [OF six2]
          step2 [OF six3] step3 [OF six4] q1 q2 q3 append_assoc)
  then show ?case by (simp add: "4.IH")
qed

lemma a2b_b2a: "a2b_base64 (b2a_base64 bs) = Inr bs"
  using a2b_loop_b2a [of "[]" bs "[]"] by (simp add: a2b_base64_def)

lemma b2a_base64_chars:
  "w \<in> set (b2a_base64 bs) \<Longrightarrow> w = BASE64_PAD \<or> (\<exists>i. sixbit i \<and> w = b2a i)"
proof (induction bs rule: b2a_base64.induct)
  case 1
  then show ?case by simp
next
  case (2 a)
  then show ?case unfolding b2a_base64.simps list.set using six1 six2' by blast
next
  case (3 a b)
  then show ?case unfolding b2a_base64.simps list.set using six1 six2 six3' by blast
next
  case (4 a b c rest)
  then show ?case unfolding b2a_base64.simps list.set set_append using six1 six2 six3 six4 by blast
qed

lemma b2a_base64_ascii: "w \<in> set (b2a_base64 bs) \<Longrightarrow> w < 0x80"
  using b2a_base64_chars [of w bs] b2a_props(3) by (auto simp: BASE64_PAD_def)

lemma decode_utf8_ascii:
  "\<forall>w \<in> set bs. w < 0x80 \<Longrightarrow> decode_utf8 bs = Inr (map (\<lambda>w. char_of (unat w)) bs)"
  by (induction bs rule: decode_utf8.induct) simp_all

lemma byte_char_nat: "(of_char (char_of (unat (w::byte))) :: nat) = unat w"
proof -
  have "unat w < 256" using unsigned_less [of w, where ?'a = nat] by simp
  then show ?thesis by simp
qed

lemma byte_char: "(of_char (char_of (unat (w::byte))) :: byte) = w"
proof -
  have "(of_char (char_of (unat w)) :: byte) = of_nat (of_char (char_of (unat w)))"
    by (simp only: of_nat_of_char)
  then show ?thesis by (simp only: byte_char_nat) simp
qed

lemma encode_ascii_chars:
  "\<forall>w \<in> set bs. w < 0x80 \<Longrightarrow> encode_ascii (map (\<lambda>w. char_of (unat w)) bs) = Inr bs"
  unfolding encode_ascii_def
  by (simp add: byte_char byte_char_nat word_less_nat_alt o_def del: of_char_of)

section \<open>JSON strings\<close>

lemma hex_table: "list_all (\<lambda>k. hexval (hexdigit k) = Some k) [0..<16]"
  by code_simp

lemma hexval_hexdigit: "k < 16 \<Longrightarrow> hexval (hexdigit k) = Some k"
  using hex_table unfolding list_all_iff by simp

lemma hexval_hexdigit_mod: "hexval (hexdigit n) = Some (n mod 16)"
proof -
  have "hexdigit n = hexdigit (n mod 16)" by (simp add: hexdigit_def)
  then show ?thesis by (simp add: hexval_hexdigit)
qed

lemma special_chars:
  "backslash \<noteq> dquote" "CHR ''u'' \<noteq> dquote" "CHR ''u'' \<noteq> backslash"
  by (simp_all add: backslash_def dquote_def)

lemma scanstring_escape_char:
  "scanstring (json_escape_char c @ tail) =
     (case scanstring tail of
        Inl err \<Rightarrow> Inl err
      | Inr (text, after) \<Rightarrow> Inr (c # text, after))"
proof -
  define n where "n = (of_char c :: nat)"
  have c: "c = char_of n" by (simp add: n_def)
  have n256: "n < 256" by (simp add: n_def)
  consider (dq) "c = dquote" | (bs) "c = backslash"
    | (short) "c \<noteq> dquote" "c \<noteq> backslash" "n = 10 \<or> n = 13 \<or> n = 9 \<or> n = 12 \<or> n = 8"
    | (plain) "c \<noteq> dquote" "c \<noteq> backslash" "32 \<le> n" "n \<le> 126"
    | (uni) "c \<noteq> dquote" "c \<noteq> backslash" "n \<noteq> 10" "n \<noteq> 13" "n \<noteq> 9" "n \<noteq> 12" "n \<noteq> 8" "\<not> (32 \<le> n \<and> n \<le> 126)"
    by blast
  then show ?thesis
  proof cases
    case dq
    show ?thesis
      unfolding dq by (simp add: json_escape_char_def json_unescape_def backslash_def dquote_def split: sum.splits)
  next
    case bs
    show ?thesis
      unfolding bs by (simp add: json_escape_char_def json_unescape_def backslash_def dquote_def split: sum.splits)
  next
    case short
    then show ?thesis
      unfolding c
      by (auto simp: json_escape_char_def json_unescape_def backslash_def dquote_def Let_def split: sum.splits)
  next
    case plain
    then show ?thesis
      by (simp add: json_escape_char_def n_def [symmetric] Let_def split: sum.splits)
  next
    case uni
    have z: "hexval CHR ''0'' = Some 0" by (simp add: hexval_def)
    have h: "hex4 [CHR ''0'', CHR ''0'', hexdigit (n div 16), hexdigit n] = Some n"
      using n256 by (simp add: hexval_hexdigit hexval_hexdigit_mod z)
    from uni have e: "json_escape_char c = [backslash, CHR ''u'', CHR ''0'', CHR ''0'', hexdigit (n div 16), hexdigit n]"
      by (simp add: json_escape_char_def n_def [symmetric] Let_def)
    show ?thesis
      unfolding e using h n256 c
      by (simp add: special_chars split: sum.splits)
  qed
qed

lemma scanstring_escape:
  "scanstring (concat (map json_escape_char s) @ dquote # rest) = Inr (s, rest)"
  by (induction s) (simp_all add: scanstring_escape_char)

lemma json_loads_dumps_str: "json_loads_str (json_encode_string s) = Inr (PStr s)"
proof -
  have "skip_ws (json_encode_string s) = json_encode_string s"
    by (simp add: skip_ws_def json_encode_string_def json_ws_def dquote_def)
  then show ?thesis
    using scanstring_escape [of s "[]"]
    by (simp add: json_loads_str_def json_encode_string_def skip_ws_def)
qed

section \<open>The binary round trip\<close>

lemma map_of_table_set: "map_of (table_set t k v) k = Some v"
  by (induction t) auto

lemma lower_Binary: "lower ''Binary'' = ''binary''"
  by code_simp

lemma b64_text:
  "decode_utf8 (b2a_base64 b) = Inr (decode_latin1 (b2a_base64 b))"
  unfolding decode_latin1_def
  by (rule decode_utf8_ascii) (simp add: b2a_base64_ascii)

lemma b64decode_text: "b64decode (PStr (decode_latin1 (b2a_base64 b))) = Inr b"
  unfolding b64decode_def decode_latin1_def
  by (simp add: encode_ascii_chars b2a_base64_ascii a2b_b2a)

lemma deserialize_encoded: "deserialize_data (PStr (json_encode_string s)) = Inr (PStr s)"
  by (simp add: deserialize_data_def json_loads_def json_loads_dumps_str)

lemma create_binary_requested:
  assumes "get_variable (pc_util w) (pc_output_variables w) (Some k) (Some ''Binary'') = Some variable"
    and "variable \<in> set (pc_output_variables w)"
    and "get_playbook_variable_type (pc_util w) variable = Some t" and "lower t = ''binary''"
    and "\<not> kv_down store"
  shows "create_binary w store (Some k) (PBytes b) validate when_requested =
     (Inr (PInt 1),
      store\<lparr>kv_calls := kv_calls store @
                 [Create (pc_context w) (strip variable)
                    (PStr (json_encode_string (decode_latin1 (b2a_base64 b))))],
            kv_entries := table_set (kv_entries store) (pc_context w, strip variable)
                    (PStr (json_encode_string (decode_latin1 (b2a_base64 b))))\<rparr>)"
  using assms
  by (simp add: create_binary_def check_null_def check_requested_def is_requested_def
      check_variable_type_def lower_Binary b64encode_def b64_text serialize_and_create_def
      serialize_data_def create_data_def client_create_def)

text \<open>
  Claim C3. For every byte sequence and every key that resolves to a requested variable
  of type Binary: when the store accepts the write, \<^verbatim>\<open>PlaybookCreate.binary\<close> returns the
  handle, and \<^verbatim>\<open>PlaybookRead.binary\<close> of the variable, with \<^verbatim>\<open>b64decode=True\<close> and
  \<^verbatim>\<open>decode=False\<close>, on the store that the write leaves returns the same bytes.
\<close>

theorem binary_round_trip:
  assumes "get_variable (pc_util w) (pc_output_variables w) (Some k) (Some ''Binary'') = Some variable"
    and "variable \<in> set (pc_output_variables w)"
    and "get_playbook_variable_type (pc_util w) variable = Some t" and "lower t = ''binary''"
    and "pr_util r = pc_util w" and "pr_context r = pc_context w"
    and "\<not> kv_down store"
  shows "fst (create_binary w store (Some k) (PBytes b) validate when_requested) = Inr (PInt 1)
       \<and> fst (read_binary r
                (snd (create_binary w store (Some k) (PBytes b) validate when_requested))
                (Some variable) True False)
           = Inr (PBinaryVariable b)"
  unfolding create_binary_requested [OF assms(1-4) assms(7)]
  using assms(3-7)
  by (simp add: read_binary_def check_variable_type_def lower_Binary get_data_def client_read_def
      map_of_table_set deserialize_encoded decode_base64_value_def b64decode_text)

theorem binary_round_trip_witness:
  "get_variable (pc_util example_writer) (pc_output_variables example_writer) (Some ''blob'') (Some ''Binary'')
      = Some ''#App:1:blob!Binary''
   \<and> ''#App:1:blob!Binary'' \<in> set (pc_output_variables example_writer)
   \<and> get_playbook_variable_type (pc_util example_writer) ''#App:1:blob!Binary'' = Some ''Binary''
   \<and> lower ''Binary'' = ''binary''
   \<and> pr_util example_reader = pc_util example_writer
   \<and> pr_context example_reader = pc_context example_writer
   \<and> \<not> kv_down empty_store
   \<and> fst (read_binary example_reader
            (snd (create_binary example_writer empty_store (Some ''blob'') (PBytes [0x00, 0x01, 0xFF]) True True))
            (Some ''#App:1:blob!Binary'') True False)
       = Inr (PBinaryVariable [0x00, 0x01, 0xFF])"
proof -
  have a: "get_variable (pc_util example_writer) (pc_output_variables example_writer) (Some ''blob'') (Some ''Binary'')
      = Some ''#App:1:blob!Binary''" by code_simp
  have b: "''#App:1:blob!Binary'' \<in> set (pc_output_variables example_writer)" by code_simp
  have c: "get_playbook_variable_type (pc_util example_writer) ''#App:1:blob!Binary'' = Some ''Binary''" by code_simp
  have d: "lower ''Binary'' = ''binary''" by code_simp
  have e: "pr_util example_reader = pc_util example_writer" by (simp add: example_reader_def example_writer_def)
  have f: "pr_context example_reader = pc_context example_writer" by (simp add: example_reader_def example_writer_def)
  have g: "\<not> kv_down empty_store" by (simp add: empty_store_def)
  show ?thesis
    using binary_round_trip [OF a b c d e f g, of "[0x00, 0x01, 0xFF]" True True] a b c d e f g
    by simp
qed

section \<open>Type mismatch on read\<close>

lemma lower_names:
  "lower ''Binary'' = ''binary''" "lower ''BinaryArray'' = ''binaryarray''"
  "lower ''KeyValue'' = ''keyvalue''" "lower ''KeyValueArray'' = ''keyvaluearray''"
  "lower ''String'' = ''string''" "lower ''StringArray'' = ''stringarray''"
  "lower ''TCBatch'' = ''tcbatch''" "lower ''TCEntity'' = ''tcentity''"
  "lower ''TCEntityArray'' = ''tcentityarray''"
  by code_simp+

lemma check_variable_type_wrong:
  "get_playbook_variable_type u k = Some t \<Longrightarrow> lower t \<noteq> lower type' \<Longrightarrow>
   check_variable_type u k type' = Inl WrongType"
  by (simp add: check_variable_type_def)

text \<open>
  Claim C5. For every typed read method and every key whose type, as \<^verbatim>\<open>Util\<close> classifies
  it, differs from the type of the method (types are compared in lower case, as
  \<^verbatim>\<open>_check_variable_type\<close> does), the method raises the wrong-type error whatever its flags
  are, and the store is as before: no call has reached it.
\<close>

theorem wrong_type_read:
  assumes "get_playbook_variable_type (pr_util self) k = Some t"
    and "lower t \<noteq> lower (type_name w)"
  shows "read_method w f g any self store (Some k) = (Inl WrongType, store)"
  using assms
  by (cases w)
     (simp_all add: read_binary_def read_binary_array_def read_key_value_def
        read_key_value_array_def read_string_def read_string_array_def read_tc_batch_def
        read_tc_entity_def read_tc_entity_array_def read_plain_def read_and_deserialize_def
        check_variable_type_wrong)

theorem wrong_type_read_witness:
  "get_playbook_variable_type (pr_util example_reader) ''#App:1:x!String'' = Some ''String''
   \<and> lower ''String'' \<noteq> lower (type_name Binary)
   \<and> read_binary example_reader greeting_store (Some ''#App:1:x!String'') True False
       = (Inl WrongType, greeting_store)"
proof -
  have a: "get_playbook_variable_type (pr_util example_reader) ''#App:1:x!String'' = Some ''String''"
    by code_simp
  have b: "lower ''String'' \<noteq> lower (type_name Binary)" by code_simp
  show ?thesis
    using wrong_type_read [OF a b, of True False "read_any 0 example_reader" greeting_store] a b
    by simp
qed

section \<open>The space-escape transform\<close>

lemma sub_escaped_other: "c \<noteq> backslash \<Longrightarrow> sub_escaped (c # X) = c # sub_escaped X"
  by (cases X rule: sub_escaped.cases) auto

lemma sub_escaped_second: "d \<noteq> backslash \<Longrightarrow> sub_escaped (c # d # Y) = c # sub_escaped (d # Y)"
  by (cases Y) auto

lemma sub_space_after_backslash: "sub_space True (e # X) = e # sub_space (e = backslash) X"
  by (cases X) auto

lemma sub_space_s: "sub_space fl (CHR ''s'' # X) = CHR ''s'' # sub_space False X"
  by (cases X) (auto simp: backslash_def)

lemma process_space_patterns_spec_aux:
  "sub_escaped (sub_space (prev = Some backslash) s) = space_escape prev s"
proof (induction prev s rule: space_escape.induct)
  case (1 prev c d e rest)
  consider (esc) "c = backslash" "d = backslash" "e = CHR ''s''"
    | (sp) "c = backslash" "d = CHR ''s''" "prev \<noteq> Some backslash"
    | (keep) "\<not> (c = backslash \<and> d = backslash \<and> e = CHR ''s'')"
             "\<not> (c = backslash \<and> d = CHR ''s'' \<and> prev \<noteq> Some backslash)"
    by blast
  then show ?case
  proof cases
    case esc
    have "sub_space (prev = Some backslash) (c # d # e # rest)
        = backslash # backslash # CHR ''s'' # sub_space False rest"
      using esc by (simp add: sub_space_after_backslash sub_space_s backslash_def)
    then show ?thesis using esc "1.IH"(1) by (simp add: backslash_def)
  next
    case sp
    have "sub_space (prev = Some backslash) (c # d # e # rest) = CHR '' '' # sub_space False (e # rest)"
      using sp by simp
    then show ?thesis using sp "1.IH"(2) by (simp add: sub_escaped_other backslash_def)
  next
    case keep
    have ss: "sub_space (prev = Some backslash) (c # d # e # rest)
        = c # sub_space (c = backslash) (d # e # rest)"
      using keep by (simp only: sub_space.simps) auto
    have ih: "sub_escaped (sub_space (Some c = Some backslash) (d # e # rest))
        = space_escape (Some c) (d # e # rest)"
      using keep by (intro "1.IH"(3)) auto
    have step: "sub_escaped (c # sub_space (c = backslash) (d # e # rest))
        = c # sub_escaped (sub_space (c = backslash) (d # e # rest))"
    proof (cases "c = backslash")
      case False
      then show ?thesis by (rule sub_escaped_other)
    next
      case True
      show ?thesis
      proof (cases "d = backslash")
        case False
        with True show ?thesis
          by (simp add: sub_space_after_backslash sub_escaped_second)
      next
        case d: True
        with True keep have "e \<noteq> CHR ''s''" by simp
        with True d show ?thesis
          by (simp add: sub_space_after_backslash)
      qed
    qed
    have rhs: "space_escape prev (c # d # e # rest) = c # space_escape (Some c) (d # e # rest)"
      using keep by (simp only: space_escape.simps) auto
    have "sub_escaped (sub_space (prev = Some backslash) (c # d # e # rest))
        = c # sub_escaped (sub_space (c = backslash) (d # e # rest))"
      by (simp only: ss step)
    also have "\<dots> = c # space_escape (Some c) (d # e # rest)"
      using ih by (simp only: option.inject)
    finally show ?thesis by (simp only: rhs)
  qed
next
  case (2 prev c d)
  then show ?case by auto
qed simp_all

lemma process_space_patterns_spec: "process_space_patterns s = space_escape None s"
  using process_space_patterns_spec_aux [of None s] by (simp add: process_space_patterns_def)

text \<open>
  Claim C9. \<^verbatim>\<open>_process_space_patterns\<close> is the space-escape transform of the specification:
  in every string, a backslash followed by \<^verbatim>\<open>s\<close> and not preceded by a backslash becomes
  a space, and two backslashes followed by \<^verbatim>\<open>s\<close> become a backslash followed by \<^verbatim>\<open>s\<close>.
  \<^verbatim>\<open>PlaybookRead.variable\<close> applies it to a key that does not match the variable pattern,
  before the embedded variables are resolved; a key that matches is passed to \<^verbatim>\<open>any\<close>
  untransformed.
\<close>

theorem space_escape_free_form_only:
  "read_variable any self store (Some k) array =
     as_array array
       (if variable_playbook_match (pr_util self) (strip k)
        then any store (Some (strip k))
        else read_embedded any self store (PStr (space_escape None k)))"
  by (simp add: read_variable_def process_space_patterns_spec)

section \<open>Embedded variables\<close>




lemma read_stored_string:
  assumes "get_playbook_variable_type (pr_util self) k = Some t" and "lower t = ''string''"
    and "map_of (kv_entries store) (pr_context self, strip k) = Some (PStr (json_encode_string s))"
    and "\<not> kv_down store"
  shows "read_and_deserialize self store k ''String'' =
     (Inr (Some (PStr s)), store\<lparr>kv_calls := kv_calls store @ [Read (pr_context self) (strip k)]\<rparr>)"
  using assms
  by (simp add: read_and_deserialize_def check_variable_type_def lower_names get_data_def
      client_read_def deserialize_encoded)








section \<open>Nesting deeper than one level\<close>

text \<open>
  Claim C1 does not hold of the code. \<^verbatim>\<open>_read_embedded\<close> fetches the value of a token
  with \<^verbatim>\<open>self.any\<close>, and \<^verbatim>\<open>any\<close> reads a String variable with \<^verbatim>\<open>string\<close> and its default
  \<^verbatim>\<open>resolve_embedded=True\<close>: the fetched value is itself scanned, and its tokens are
  resolved, before it is spliced in. With \<^verbatim>\<open>a\<close> stored as \<^verbatim>\<open>"x #App:1:b!String"\<close>, \<^verbatim>\<open>b\<close> as
  \<^verbatim>\<open>"y #App:1:c!String"\<close> and \<^verbatim>\<open>c\<close> as \<^verbatim>\<open>"z"\<close>, reading \<^verbatim>\<open>a\<close> gives \<^verbatim>\<open>"x y z"\<close>, two levels
  deep.
\<close>

theorem nested_embedding_is_resolved:
  "fst (read_string (read_any 2 example_reader) example_reader nested_store
          (Some ''#App:1:a!String'') True)
     = Inr (PStr ''x y z'')"
  by code_simp

text \<open>
  The depth is not bounded at all: a String variable whose value contains its own
  token is read again at every level, and the read ends in \<^verbatim>\<open>RecursionError\<close> whatever
  call depth is available.
\<close>

lemma self_reference_any:
  assumes "kv_entries store = kv_entries nested_store" and "\<not> kv_down store"
  shows "fst (read_any n example_reader store (Some ''#App:1:loop!String'')) = Inl RecursionError"
  using assms
proof (induction n arbitrary: store)
  case 0
  then show ?case by simp
next
  case (Suc n)
  let ?store1 = "store\<lparr>kv_calls := kv_calls store @ [Read ''ctx'' ''#App:1:loop!String'']\<rparr>"
  have s: "strip ''#App:1:loop!String'' = ''#App:1:loop!String''" by code_simp
  have t: "get_playbook_variable_type (pr_util example_reader) ''#App:1:loop!String'' = Some ''String''"
    by code_simp
  have l: "lower ''String'' = ''string''" by code_simp
  have c: "pr_context example_reader = ''ctx''" by (simp add: example_reader_def)
  have e: "map_of (kv_entries store) (pr_context example_reader, strip ''#App:1:loop!String'')
      = Some (PStr (json_encode_string ''again #App:1:loop!String''))"
    unfolding Suc.prems(1) by code_simp
  have rd: "read_and_deserialize example_reader store ''#App:1:loop!String'' ''String''
      = (Inr (Some (PStr ''again #App:1:loop!String'')), ?store1)"
    using read_stored_string [OF t l e Suc.prems(2)] by (simp add: c s)
  have v: "\<not> is_playbook_variable (pr_util example_reader) (PStr ''again #App:1:loop!String'')"
    by code_simp
  have m: "variable_expansion_pattern (pr_util example_reader) ''again #App:1:loop!String'' = [token_loop]"
    by code_simp
  have ih: "fst (read_any n example_reader ?store1 (Some ''#App:1:loop!String'')) = Inl RecursionError"
    using Suc.prems by (intro Suc.IH) simp_all
  obtain store2 where inner: "read_any n example_reader ?store1 (Some ''#App:1:loop!String'')
      = (Inl RecursionError, store2)"
    using ih by (cases "read_any n example_reader ?store1 (Some ''#App:1:loop!String'')") simp
  have "read_string (read_any n example_reader) example_reader store (Some ''#App:1:loop!String'') True
      = (Inl RecursionError, store2)"
    using v m inner
    by (simp add: read_string_def rd read_embedded_def token_loop_def)
  then show ?case
    using t l
    by (simp add: any_body_def s read_typed_def variable_type_map_def)
qed

end
